theory Spec2Isabelle
  imports Complex_Main
begin

section \<open>Load-test analysis script: values, loaders and analyzers\<close>

text \<open>
  The script \<^verbatim>\<open>scripts/analyze-load-test.py\<close> reads a k6 results document (JSON) and an
  optional CSV of resource samples, reduces both to summaries, draws a chart grid and
  writes a Markdown report.

  Numbers are idealised: a Python \<^verbatim>\<open>int\<close> is an \<open>int\<close>, a Python \<^verbatim>\<open>float\<close> is the real
  number it denotes (no rounding, infinities or NaN), and a decimal literal of the source
  such as \<^verbatim>\<open>0.05\<close> is the real \<open>5 / 100\<close>. Where an \<^verbatim>\<open>int\<close> is turned into a \<^verbatim>\<open>float\<close> or
  into text the interpreter's limits apply and the exceptions they raise are modelled;
  the recursion limit on deeply nested values is not.
\<close>

subsection \<open>Python values as produced by \<^verbatim>\<open>json.load\<close>\<close>

text \<open>
  A dictionary is an association list read through \<open>map_of\<close>; a loaded JSON object has
  string keys, each at most once.
\<close>

datatype pyval =
    PNone
  | PBool bool
  | PInt int
  | PFloat real
  | PStr string
  | PList "pyval list"
  | PDict "(string \<times> pyval) list"

datatype error =
    AttributeError
  | TypeError
  | ValueError
  | OverflowError
  | KeyError
  | FileNotFoundError
  | JSONDecodeError
  | OtherError

text \<open>Bind of the exception monad: the first raise wins.\<close>

definition rbind :: "error + 'a \<Rightarrow> ('a \<Rightarrow> error + 'b) \<Rightarrow> error + 'b" where
  "rbind r f = (case r of Inl e \<Rightarrow> Inl e | Inr v \<Rightarrow> f v)"

text \<open>Truth value of an object, as \<^verbatim>\<open>if x:\<close> and \<^verbatim>\<open>not x\<close> test it.\<close>

fun truthy :: "pyval \<Rightarrow> bool" where
  "truthy PNone = False"
| "truthy (PBool b) = b"
| "truthy (PInt i) = (i \<noteq> 0)"
| "truthy (PFloat r) = (r \<noteq> 0)"
| "truthy (PStr s) = (s \<noteq> [])"
| "truthy (PList xs) = (xs \<noteq> [])"
| "truthy (PDict kvs) = (kvs \<noteq> [])"

text \<open>\<^verbatim>\<open>x.get(key, default)\<close>: only a dictionary has the method.\<close>

fun py_get :: "pyval \<Rightarrow> string \<Rightarrow> pyval \<Rightarrow> error + pyval" where
  "py_get (PDict kvs) k dflt = Inr (case map_of kvs k of None \<Rightarrow> dflt | Some v \<Rightarrow> v)"
| "py_get _ k dflt = Inl AttributeError"

text \<open>\<^verbatim>\<open>x.get(name, {}).get(stat, 0)\<close>, the extraction used for every metric field.\<close>

definition get_stat :: "pyval \<Rightarrow> string \<Rightarrow> string \<Rightarrow> error + pyval" where
  "get_stat m name stat = rbind (py_get m name (PDict [])) (\<lambda>d. py_get d stat (PInt 0))"

subsection \<open>The performance summary\<close>

record http_requests =
  total :: pyval
  rate :: pyval
  p95 :: pyval
  p99 :: pyval
  failed_rate :: pyval

record websocket =
  latency_p95 :: pyval
  messages_total :: pyval

record business_metrics =
  room_creation_success :: pyval
  game_join_success :: pyval
  question_flag_success :: pyval

record performance =
  http_requests :: http_requests
  websocket :: websocket
  business_metrics :: business_metrics
  test_duration :: pyval
  max_vus :: pyval

definition analyze_performance :: "pyval \<Rightarrow> error + performance option" where
  "analyze_performance k6_data =
    (if \<not> truthy k6_data then Inr None
     else
       rbind (py_get k6_data ''metrics'' (PDict [])) (\<lambda>metrics.
       rbind (get_stat metrics ''http_reqs'' ''count'') (\<lambda>v_total.
       rbind (get_stat metrics ''http_reqs'' ''rate'') (\<lambda>v_rate.
       rbind (get_stat metrics ''http_req_duration'' ''p(95)'') (\<lambda>v_p95.
       rbind (get_stat metrics ''http_req_duration'' ''p(99)'') (\<lambda>v_p99.
       rbind (get_stat metrics ''http_req_failed'' ''rate'') (\<lambda>v_failed.
       rbind (get_stat metrics ''ws_latency_ms'' ''p(95)'') (\<lambda>v_ws_p95.
       rbind (get_stat metrics ''ws_messages_total'' ''count'') (\<lambda>v_ws_total.
       rbind (get_stat metrics ''room_creation_success'' ''rate'') (\<lambda>v_room.
       rbind (get_stat metrics ''game_join_success'' ''rate'') (\<lambda>v_join.
       rbind (get_stat metrics ''question_flag_success'' ''rate'') (\<lambda>v_flag.
       rbind (get_stat k6_data ''state'' ''testRunDuration'') (\<lambda>v_duration.
       rbind (get_stat k6_data ''state'' ''maxVUs'') (\<lambda>v_vus.
         Inr (Some \<lparr>
           http_requests = \<lparr>total = v_total, rate = v_rate, p95 = v_p95, p99 = v_p99,
             failed_rate = v_failed\<rparr>,
           websocket = \<lparr>latency_p95 = v_ws_p95, messages_total = v_ws_total\<rparr>,
           business_metrics = \<lparr>room_creation_success = v_room, game_join_success = v_join,
             question_flag_success = v_flag\<rparr>,
           test_duration = v_duration,
           max_vus = v_vus\<rparr>)))))))))))))))"

subsection \<open>Numbers, comparison, membership and subscription\<close>

text \<open>The numeric value of an object; \<^verbatim>\<open>bool\<close> is a subclass of \<^verbatim>\<open>int\<close>.\<close>

fun as_number :: "pyval \<Rightarrow> real option" where
  "as_number (PBool b) = Some (of_bool b)"
| "as_number (PInt i) = Some (of_int i)"
| "as_number (PFloat r) = Some r"
| "as_number _ = None"

text \<open>\<^verbatim>\<open>v < c\<close> and \<^verbatim>\<open>v > c\<close> against a numeric literal: any other operand type raises.\<close>

definition py_lt :: "pyval \<Rightarrow> real \<Rightarrow> error + bool" where
  "py_lt v c = (case as_number v of None \<Rightarrow> Inl TypeError | Some x \<Rightarrow> Inr (x < c))"

definition py_gt :: "pyval \<Rightarrow> real \<Rightarrow> error + bool" where
  "py_gt v c = (case as_number v of None \<Rightarrow> Inl TypeError | Some x \<Rightarrow> Inr (x > c))"

text \<open>
  The least magnitude of an \<^verbatim>\<open>int\<close> that no \<^verbatim>\<open>float\<close> can hold: halfway between the largest
  finite double, \<open>2 ^ 1024 - 2 ^ 971\<close>, and \<open>2 ^ 1024\<close>, where rounding goes up.
\<close>

definition float_limit :: int where
  "float_limit = 2 ^ 1024 - 2 ^ 970"

text \<open>
  \<^verbatim>\<open>v / c\<close> with a positive integer literal \<open>c\<close>: true division, always a float. The
  quotient of two integers raises \<^verbatim>\<open>OverflowError\<close> when it is beyond the floats.
\<close>

fun py_truediv :: "pyval \<Rightarrow> real \<Rightarrow> error + pyval" where
  "py_truediv (PInt i) c =
     (if real_of_int float_limit \<le> \<bar>real_of_int i / c\<bar> then Inl OverflowError
      else Inr (PFloat (real_of_int i / c)))"
| "py_truediv (PBool b) c = Inr (PFloat (of_bool b / c))"
| "py_truediv (PFloat r) c = Inr (PFloat (r / c))"
| "py_truediv _ c = Inl TypeError"

fun is_substring :: "string \<Rightarrow> string \<Rightarrow> bool" where
  "is_substring k [] = (k = [])"
| "is_substring k (c # cs) = (take (length k) (c # cs) = k \<or> is_substring k cs)"

text \<open>\<^verbatim>\<open>key in x\<close> for a string key.\<close>

fun py_contains :: "string \<Rightarrow> pyval \<Rightarrow> error + bool" where
  "py_contains k (PDict kvs) = Inr (map_of kvs k \<noteq> None)"
| "py_contains k (PList xs) = Inr (PStr k \<in> set xs)"
| "py_contains k (PStr s) = Inr (is_substring k s)"
| "py_contains k _ = Inl TypeError"

text \<open>\<^verbatim>\<open>x[key]\<close> for a string key.\<close>

fun py_index :: "pyval \<Rightarrow> string \<Rightarrow> error + pyval" where
  "py_index (PDict kvs) k = (case map_of kvs k of None \<Rightarrow> Inl KeyError | Some v \<Rightarrow> Inr v)"
| "py_index _ k = Inl TypeError"

text \<open>A list comprehension whose element expression may raise.\<close>

fun rmap :: "('a \<Rightarrow> error + 'b) \<Rightarrow> 'a list \<Rightarrow> error + 'b list" where
  "rmap f [] = Inr []"
| "rmap f (x # xs) = rbind (f x) (\<lambda>y. rbind (rmap f xs) (\<lambda>ys. Inr (y # ys)))"

subsection \<open>The resource series and its summary\<close>

record datetime =
  year :: nat
  month :: nat
  day :: nat
  hour :: nat
  minute :: nat
  second :: nat

text \<open>
  One row of the data frame that \<^verbatim>\<open>load_system_metrics\<close> builds, with the column names
  it assigns.
\<close>

record sample =
  col_timestamp :: datetime
  col_cpu :: real
  col_memory :: real
  col_db_connections :: real
  col_redis_connections :: real

type_synonym dataframe = "sample list"

text \<open>
  Modelled from the spec: the methods \<^verbatim>\<open>mean\<close>, \<^verbatim>\<open>max\<close> and \<^verbatim>\<open>quantile\<close> of a pandas
  column are library code outside the repository. They are the arithmetic mean, the
  maximum and the linear-interpolation quantile (the value at the fractional position
  \<open>q * (n - 1)\<close> of the sorted column) of the spec's analyzer section, over reals.
\<close>

definition series_mean :: "real list \<Rightarrow> real" where
  "series_mean xs = sum_list xs / real (length xs)"

definition series_max :: "real list \<Rightarrow> real" where
  "series_max xs = Max (set xs)"

definition series_quantile :: "real \<Rightarrow> real list \<Rightarrow> real" where
  "series_quantile q xs =
     (let s = sort xs;
          h = q * real (length xs - 1);
          lo = nat \<lfloor>h\<rfloor>;
          hi = nat \<lceil>h\<rceil>
      in s ! lo + (h - real lo) * (s ! hi - s ! lo))"

text \<open>
  The entries \<^verbatim>\<open>mean\<close>, \<^verbatim>\<open>max\<close> and \<^verbatim>\<open>p95\<close> of one resource; the last two are renamed, since
  \<open>max\<close> is the binary maximum of HOL and \<open>p95\<close> a field of the HTTP group above.
\<close>

record stats =
  mean :: real
  maximum :: real
  pct95 :: real

record system_analysis =
  cpu :: stats
  memory :: stats
  database_connections :: stats
  redis_connections :: stats

definition column_stats :: "real list \<Rightarrow> stats" where
  "column_stats xs =
     \<lparr>mean = series_mean xs, maximum = series_max xs, pct95 = series_quantile (95 / 100) xs\<rparr>"

definition analyze_system_metrics :: "dataframe option \<Rightarrow> system_analysis option" where
  "analyze_system_metrics system_df =
     (case system_df of
        None \<Rightarrow> None
      | Some df \<Rightarrow>
          if df = [] then None
          else Some \<lparr>
            cpu = column_stats (map col_cpu df),
            memory = column_stats (map col_memory df),
            database_connections = column_stats (map col_db_connections df),
            redis_connections = column_stats (map col_redis_connections df)\<rparr>)"

subsection \<open>Formatted text\<close>

text \<open>
  An f-string is kept as its pieces: literal text, a value with its format specification
  (empty for a bare \<^verbatim>\<open>{v}\<close>), a clock reading with its \<^verbatim>\<open>strftime\<close> pattern, or the
  message of a caught exception. How a float is rendered into digits is not modelled.
  Text is UTF-8: the marks of the report are the byte sequences below.
\<close>

datatype piece =
    Lit string
  | Fmt pyval string
  | Strftime datetime string
  | Exc error

type_synonym fstring = "piece list"

definition check_mark :: string where
  "check_mark = [CHR 0xE2, CHR 0x9C, CHR 0x85]"

definition cross_mark :: string where
  "cross_mark = [CHR 0xE2, CHR 0x9D, CHR 0x8C]"



definition chart_up :: string where
  "chart_up = [CHR 0xF0, CHR 0x9F, CHR 0x93, CHR 0x88]"

definition bar_chart :: string where
  "bar_chart = [CHR 0xF0, CHR 0x9F, CHR 0x93, CHR 0x8A]"

text \<open>
  The interpreter's default limit on the decimal digits of an \<^verbatim>\<open>int\<close> converted to text
  (\<^verbatim>\<open>sys.get_int_max_str_digits()\<close>); \<^verbatim>\<open>json.load\<close> is under the same limit, so no loaded
  integer exceeds it.
\<close>

definition max_str_digits :: nat where
  "max_str_digits = 4300"

text \<open>A presentation type that converts its argument to a float first: \<^verbatim>\<open>f\<close> or \<^verbatim>\<open>%\<close>.\<close>

definition float_presentation :: "string \<Rightarrow> bool" where
  "float_presentation spec \<longleftrightarrow> spec \<noteq> [] \<and> (last spec = CHR ''f'' \<or> last spec = CHR ''%'')"

text \<open>
  \<^verbatim>\<open>{v:spec}\<close> with a numeric presentation (\<^verbatim>\<open>.2f\<close>, \<^verbatim>\<open>.1f\<close>, \<^verbatim>\<open>.0f\<close>, \<^verbatim>\<open>.2%\<close>, \<^verbatim>\<open>,\<close>):
  a string raises \<^verbatim>\<open>ValueError\<close>, \<^verbatim>\<open>None\<close>, a list or a dictionary \<^verbatim>\<open>TypeError\<close>; an integer
  too large for a float raises \<^verbatim>\<open>OverflowError\<close> under \<^verbatim>\<open>f\<close> and \<^verbatim>\<open>%\<close>, and one with too many
  digits raises \<^verbatim>\<open>ValueError\<close> under \<^verbatim>\<open>,\<close>.
\<close>

fun format_num :: "pyval \<Rightarrow> string \<Rightarrow> error + piece" where
  "format_num (PStr s) spec = Inl ValueError"
| "format_num PNone spec = Inl TypeError"
| "format_num (PList xs) spec = Inl TypeError"
| "format_num (PDict kvs) spec = Inl TypeError"
| "format_num (PInt i) spec =
     (if float_presentation spec then
        (if float_limit \<le> \<bar>i\<bar> then Inl OverflowError else Inr (Fmt (PInt i) spec))
      else
        (if 10 ^ max_str_digits \<le> \<bar>i\<bar> then Inl ValueError else Inr (Fmt (PInt i) spec)))"
| "format_num v spec = Inr (Fmt v spec)"

text \<open>
  Whether \<^verbatim>\<open>str\<close> renders the value: every integer in it is within the digit limit.
\<close>

fun printable :: "pyval \<Rightarrow> bool" where
  "printable (PInt i) = (\<bar>i\<bar> < 10 ^ max_str_digits)"
| "printable (PList xs) = list_all printable xs"
| "printable (PDict kvs) = list_all (\<lambda>kv. printable (snd kv)) kvs"
| "printable _ = True"

text \<open>A bare \<^verbatim>\<open>{v}\<close>: the text of \<^verbatim>\<open>str(v)\<close>.\<close>

definition format_plain :: "pyval \<Rightarrow> error + piece" where
  "format_plain v = (if printable v then Inr (Fmt v []) else Inl ValueError)"

subsection \<open>The chart renderer\<close>

text \<open>
  Each of the six axes of the 2 by 3 grid collects the drawing calls made on it, in
  order; an axes nothing is drawn on has the empty list. Calls into the plotting library
  are recorded and never raise; creating the directory and saving the image are left out.
\<close>

datatype draw =
    Bar "string list" "pyval list" "string list"
  | Plot "datetime list" "real list" "string option"
  | Set_title string
  | Set_ylabel string
  | Tick_params_x_rotation nat
  | Axhline real string
  | Set_ylim real real
  | Legend

record figure =
  axes_0_0 :: "draw list"
  axes_0_1 :: "draw list"
  axes_0_2 :: "draw list"
  axes_1_0 :: "draw list"
  axes_1_1 :: "draw list"
  axes_1_2 :: "draw list"

record graphs_result =
  fig :: figure
  image_file :: fstring
  graphs_stdout :: "fstring list"

text \<open>Panel 1: HTTP response-time percentiles.\<close>

definition http_panel :: "pyval \<Rightarrow> error + draw list" where
  "http_panel k6_data =
     (if \<not> truthy k6_data then Inr []
      else rbind (py_contains ''metrics'' k6_data) (\<lambda>has_metrics.
        if \<not> has_metrics then Inr []
        else rbind (py_index k6_data ''metrics'') (\<lambda>metrics.
          rbind (py_contains ''http_req_duration'' metrics) (\<lambda>has_duration.
            if \<not> has_duration then Inr []
            else rbind (py_index metrics ''http_req_duration'') (\<lambda>duration_data.
              let percentiles = [''p(50)'', ''p(90)'', ''p(95)'', ''p(99)''] in
              rbind (rmap (\<lambda>p. py_get duration_data p (PInt 0)) percentiles) (\<lambda>vals.
                Inr [Bar percentiles vals [''green'', ''yellow'', ''orange'', ''red''],
                     Set_title ''HTTP Response Time Percentiles'',
                     Set_ylabel ''Response Time (ms)'',
                     Tick_params_x_rotation 45,
                     Axhline 300 ''Threshold (300ms)'',
                     Legend]))))))"

text \<open>Panels 2 to 5: the resource series over time, drawn whenever the frame is not \<^verbatim>\<open>None\<close>.\<close>

definition cpu_panel :: "dataframe option \<Rightarrow> draw list" where
  "cpu_panel system_df =
     (case system_df of
        None \<Rightarrow> []
      | Some df \<Rightarrow>
          [Plot (map col_timestamp df) (map col_cpu df) None,
           Set_title ''CPU Usage Over Time'',
           Set_ylabel ''CPU Usage (%)'',
           Tick_params_x_rotation 45,
           Axhline 80 ''Warning (80%)'',
           Legend])"

definition db_panel :: "dataframe option \<Rightarrow> draw list" where
  "db_panel system_df =
     (case system_df of
        None \<Rightarrow> []
      | Some df \<Rightarrow>
          [Plot (map col_timestamp df) (map col_db_connections df) (Some ''blue''),
           Set_title ''Database Connections Over Time'',
           Set_ylabel ''Connections'',
           Tick_params_x_rotation 45,
           Axhline 100 ''Limit (100)'',
           Legend])"

definition redis_panel :: "dataframe option \<Rightarrow> draw list" where
  "redis_panel system_df =
     (case system_df of
        None \<Rightarrow> []
      | Some df \<Rightarrow>
          [Plot (map col_timestamp df) (map col_redis_connections df) (Some ''green''),
           Set_title ''Redis Connections Over Time'',
           Set_ylabel ''Connections'',
           Tick_params_x_rotation 45,
           Axhline 500 ''Limit (500)'',
           Legend])"

definition memory_panel :: "dataframe option \<Rightarrow> draw list" where
  "memory_panel system_df =
     (case system_df of
        None \<Rightarrow> []
      | Some df \<Rightarrow>
          [Plot (map col_timestamp df) (map col_memory df) (Some ''purple''),
           Set_title ''Memory Usage Over Time'',
           Set_ylabel ''Memory (pages)'',
           Tick_params_x_rotation 45])"

text \<open>Panel 6: business success rates, each bar coloured by its value.\<close>

definition bar_colour :: "pyval \<Rightarrow> error + string" where
  "bar_colour v =
     rbind (py_gt v (95 / 100)) (\<lambda>high.
       if high then Inr ''green''
       else rbind (py_gt v (9 / 10)) (\<lambda>medium.
         if medium then Inr ''yellow'' else Inr ''red''))"

definition business_panel :: "pyval \<Rightarrow> error + draw list" where
  "business_panel k6_data =
     (if \<not> truthy k6_data then Inr []
      else rbind (py_contains ''metrics'' k6_data) (\<lambda>has_metrics.
        if \<not> has_metrics then Inr []
        else rbind (py_index k6_data ''metrics'') (\<lambda>metrics.
          let business_names =
                [''room_creation_success'', ''game_join_success'', ''question_flag_success''] in
          rbind (rmap (\<lambda>m. get_stat metrics m ''rate'') business_names) (\<lambda>vals.
          rbind (rmap bar_colour vals) (\<lambda>colors.
            Inr [Bar [''Room Creation'', ''Game Join'', ''Question Flag''] vals colors,
                 Set_title ''Business Metrics Success Rates'',
                 Set_ylabel ''Success Rate'',
                 Tick_params_x_rotation 45,
                 Set_ylim 0 1,
                 Axhline (95 / 100) ''Threshold (95%)'',
                 Legend])))))"

definition generate_graphs ::
  "pyval \<Rightarrow> dataframe option \<Rightarrow> string \<Rightarrow> datetime \<Rightarrow> error + graphs_result" where
  "generate_graphs k6_data system_df output_dir now =
     rbind (http_panel k6_data) (\<lambda>a00.
     rbind (business_panel k6_data) (\<lambda>a12.
       Inr \<lparr>fig = \<lparr>axes_0_0 = a00,
                   axes_0_1 = cpu_panel system_df,
                   axes_0_2 = db_panel system_df,
                   axes_1_0 = redis_panel system_df,
                   axes_1_1 = memory_panel system_df,
                   axes_1_2 = a12\<rparr>,
            image_file = [Lit output_dir, Lit ''/load-test-analysis-'',
                          Strftime now ''%Y%m%d_%H%M%S'', Lit ''.png''],
            graphs_stdout = [[Lit chart_up, Lit '' Graphs saved to '', Lit output_dir]]\<rparr>))"

subsection \<open>The report writer\<close>

text \<open>
  The report is the list of strings passed to \<^verbatim>\<open>f.write\<close>, in order. A raise inside the
  writer is the result \<open>Inl\<close>; the partly written file it leaves behind is not modelled.
\<close>

definition http_within_line :: fstring where
  "http_within_line =
     [Lit check_mark, Lit '' **HTTP Response Time:** Within acceptable limits\<newline>'']"

definition http_exceeds_line :: fstring where
  "http_exceeds_line =
     [Lit cross_mark, Lit '' **HTTP Response Time:** Exceeds 300ms threshold\<newline>'']"

definition error_within_line :: fstring where
  "error_within_line =
     [Lit check_mark, Lit '' **Error Rate:** Within acceptable limits\<newline>'']"

definition error_exceeds_line :: fstring where
  "error_exceeds_line =
     [Lit cross_mark, Lit '' **Error Rate:** Exceeds 5% threshold\<newline>'']"

definition ws_within_line :: fstring where
  "ws_within_line =
     [Lit check_mark, Lit '' **WebSocket Latency:** Within acceptable limits\<newline>'']"

definition ws_exceeds_line :: fstring where
  "ws_exceeds_line =
     [Lit cross_mark, Lit '' **WebSocket Latency:** Exceeds 100ms threshold\<newline>'']"

definition http_block :: "fstring list" where
  "http_block =
     [[Lit ''- **Optimize HTTP endpoints** that exceed 300ms response time\<newline>''],
      [Lit ''- **Implement caching** for frequently accessed data\<newline>''],
      [Lit ''- **Review database queries** for optimization opportunities\<newline>'']]"

definition error_block :: "fstring list" where
  "error_block =
     [[Lit ''- **Investigate error patterns** and implement error handling\<newline>''],
      [Lit ''- **Review rate limiting** configuration\<newline>''],
      [Lit ''- **Check external service dependencies**\<newline>'']]"

definition ws_block :: "fstring list" where
  "ws_block =
     [[Lit ''- **Optimize WebSocket message processing**\<newline>''],
      [Lit ''- **Review Redis pub/sub performance**\<newline>''],
      [Lit ''- **Consider WebSocket connection pooling**\<newline>'']]"

definition cpu_block :: "fstring list" where
  "cpu_block =
     [[Lit ''- **Scale horizontally** by adding more API instances\<newline>''],
      [Lit ''- **Optimize CPU-intensive operations**\<newline>''],
      [Lit ''- **Consider async processing** for heavy operations\<newline>'']]"

definition db_block :: "fstring list" where
  "db_block =
     [[Lit ''- **Increase database connection pool size**\<newline>''],
      [Lit ''- **Implement connection pooling**\<newline>''],
      [Lit ''- **Consider read replicas** for read-heavy operations\<newline>'']]"

definition redis_block :: "fstring list" where
  "redis_block =
     [[Lit ''- **Optimize Redis connection usage**\<newline>''],
      [Lit ''- **Implement connection pooling** for Redis\<newline>''],
      [Lit ''- **Consider Redis clustering** for scale\<newline>'']]"

text \<open>The body of the first \<^verbatim>\<open>if perf_analysis:\<close>: the indicators, then the assessment.\<close>

definition executive_summary :: "performance option \<Rightarrow> error + fstring list" where
  "executive_summary perf_analysis =
     (case perf_analysis of
        None \<Rightarrow> Inr []
      | Some perf \<Rightarrow>
          let http_p95 = p95 (http_requests perf);
              error_rate = failed_rate (http_requests perf);
              ws_p95 = latency_p95 (websocket perf) in
          rbind (format_num http_p95 ''.2f'') (\<lambda>f_http.
          rbind (format_num error_rate ''.2%'') (\<lambda>f_error.
          rbind (format_num ws_p95 ''.2f'') (\<lambda>f_ws.
          rbind (format_num (total (http_requests perf)) '','') (\<lambda>f_total.
          rbind (format_num (rate (http_requests perf)) ''.2f'') (\<lambda>f_rate.
          rbind (py_truediv (test_duration perf) 1000000000) (\<lambda>seconds.
          rbind (format_num seconds ''.1f'') (\<lambda>f_duration.
          rbind (format_plain (max_vus perf)) (\<lambda>f_vus.
          rbind (py_lt http_p95 300) (\<lambda>http_ok.
          rbind (py_lt error_rate (5 / 100)) (\<lambda>error_ok.
          rbind (py_lt ws_p95 100) (\<lambda>ws_ok.
            Inr [[Lit ''### Key Performance Indicators\<newline>\<newline>''],
                 [Lit ''- **HTTP Response Time (p95):** '', f_http, Lit ''ms\<newline>''],
                 [Lit ''- **Error Rate:** '', f_error, Lit ''\<newline>''],
                 [Lit ''- **WebSocket Latency (p95):** '', f_ws, Lit ''ms\<newline>''],
                 [Lit ''- **Total Requests:** '', f_total, Lit ''\<newline>''],
                 [Lit ''- **Request Rate:** '', f_rate, Lit '' req/s\<newline>''],
                 [Lit ''- **Test Duration:** '', f_duration, Lit ''s\<newline>''],
                 [Lit ''- **Max Virtual Users:** '', f_vus, Lit ''\<newline>\<newline>''],
                 [Lit ''### Performance Assessment\<newline>\<newline>''],
                 (if http_ok then http_within_line else http_exceeds_line),
                 (if error_ok then error_within_line else error_exceeds_line),
                 (if ws_ok then ws_within_line else ws_exceeds_line)]))))))))))))"

definition system_resource_section :: "system_analysis option \<Rightarrow> fstring list" where
  "system_resource_section sys_analysis =
     (case sys_analysis of
        None \<Rightarrow> []
      | Some sys \<Rightarrow>
          [[Lit ''\<newline>## System Resource Analysis\<newline>\<newline>''],
           [Lit ''### CPU Usage\<newline>''],
           [Lit ''- **Average:** '', Fmt (PFloat (mean (cpu sys))) ''.1f'', Lit ''%\<newline>''],
           [Lit ''- **Peak:** '', Fmt (PFloat (maximum (cpu sys))) ''.1f'', Lit ''%\<newline>''],
           [Lit ''- **95th Percentile:** '', Fmt (PFloat (pct95 (cpu sys))) ''.1f'',
            Lit ''%\<newline>\<newline>''],
           [Lit ''### Database Connections\<newline>''],
           [Lit ''- **Average:** '', Fmt (PFloat (mean (database_connections sys))) ''.1f'',
            Lit ''\<newline>''],
           [Lit ''- **Peak:** '', Fmt (PFloat (maximum (database_connections sys))) ''.0f'',
            Lit ''\<newline>''],
           [Lit ''- **95th Percentile:** '',
            Fmt (PFloat (pct95 (database_connections sys))) ''.1f'',
            Lit ''\<newline>\<newline>''],
           [Lit ''### Redis Connections\<newline>''],
           [Lit ''- **Average:** '', Fmt (PFloat (mean (redis_connections sys))) ''.1f'',
            Lit ''\<newline>''],
           [Lit ''- **Peak:** '', Fmt (PFloat (maximum (redis_connections sys))) ''.0f'',
            Lit ''\<newline>''],
           [Lit ''- **95th Percentile:** '',
            Fmt (PFloat (pct95 (redis_connections sys))) ''.1f'',
            Lit ''\<newline>\<newline>'']])"

definition performance_recommendations :: "performance option \<Rightarrow> error + fstring list" where
  "performance_recommendations perf_analysis =
     (case perf_analysis of
        None \<Rightarrow> Inr []
      | Some perf \<Rightarrow>
          rbind (py_gt (p95 (http_requests perf)) 300) (\<lambda>http_high.
          rbind (py_gt (failed_rate (http_requests perf)) (5 / 100)) (\<lambda>error_high.
          rbind (py_gt (latency_p95 (websocket perf)) 100) (\<lambda>ws_high.
            Inr ((if http_high then http_block else []) @
                 (if error_high then error_block else []) @
                 (if ws_high then ws_block else []))))))"

definition system_recommendations :: "system_analysis option \<Rightarrow> fstring list" where
  "system_recommendations sys_analysis =
     (case sys_analysis of
        None \<Rightarrow> []
      | Some sys \<Rightarrow>
          (if pct95 (cpu sys) > 80 then cpu_block else []) @
          (if pct95 (database_connections sys) > 80 then db_block else []) @
          (if pct95 (redis_connections sys) > 400 then redis_block else []))"

definition next_steps :: "fstring list" where
  "next_steps =
     [[Lit ''\<newline>## Next Steps\<newline>\<newline>''],
      [Lit ''1. **Address critical performance issues** identified above\<newline>''],
      [Lit ''2. **Implement recommended optimizations**\<newline>''],
      [Lit ''3. **Re-run load tests** after optimizations\<newline>''],
      [Lit ''4. **Monitor production performance** continuously\<newline>''],
      [Lit ''5. **Set up automated performance testing** in CI/CD\<newline>'']]"

definition generated_line :: "datetime \<Rightarrow> fstring" where
  "generated_line now =
     [Lit ''**Generated:** '', Strftime now ''%Y-%m-%d %H:%M:%S'', Lit ''\<newline>\<newline>'']"

record report_result =
  report_file :: fstring
  content :: "fstring list"
  report_stdout :: "fstring list"

text \<open>
  The clock is read twice: \<open>now_file\<close> names the file and \<open>now_generated\<close> fills the
  generation-time line.
\<close>

definition generate_report ::
  "performance option \<Rightarrow> system_analysis option \<Rightarrow> string \<Rightarrow> datetime \<Rightarrow> datetime \<Rightarrow>
   error + report_result" where
  "generate_report perf_analysis sys_analysis output_dir now_file now_generated =
     (let file = [Lit output_dir, Lit ''/performance-report-'',
                  Strftime now_file ''%Y%m%d_%H%M%S'', Lit ''.md''] in
      rbind (executive_summary perf_analysis) (\<lambda>summary_lines.
      rbind (performance_recommendations perf_analysis) (\<lambda>perf_lines.
        Inr \<lparr>report_file = file,
             content =
               [[Lit ''# Party Puzzle Palooza Load Test Performance Report\<newline>\<newline>''],
                generated_line now_generated,
                [Lit ''## Executive Summary\<newline>\<newline>'']] @
               summary_lines @
               system_resource_section sys_analysis @
               [[Lit ''## Recommendations\<newline>\<newline>'']] @
               perf_lines @
               system_recommendations sys_analysis @
               next_steps,
             report_stdout = [[Lit bar_chart, Lit '' Report saved to ''] @ file]\<rparr>)))"

subsection \<open>Loaders and the main program\<close>





record run_result =
  stdout :: "fstring list"
  chart :: graphs_result
  report :: report_result



subsection \<open>Vocabulary of the properties\<close>

text \<open>The value found by following a chain of keys through nested dictionaries, if any.\<close>

fun lookup_path :: "pyval \<Rightarrow> string list \<Rightarrow> pyval option" where
  "lookup_path v [] = Some v"
| "lookup_path (PDict kvs) (k # ks) =
     (case map_of kvs k of None \<Rightarrow> None | Some v \<Rightarrow> lookup_path v ks)"
| "lookup_path _ (k # ks) = None"

fun is_dict :: "pyval \<Rightarrow> bool" where
  "is_dict (PDict kvs) = True"
| "is_dict _ = False"

definition dict_or_missing :: "pyval \<Rightarrow> string list \<Rightarrow> bool" where
  "dict_or_missing d path = (case lookup_path d path of None \<Rightarrow> True | Some v \<Rightarrow> is_dict v)"

definition metric_names :: "string list" where
  "metric_names =
     [''http_reqs'', ''http_req_duration'', ''http_req_failed'', ''ws_latency_ms'',
      ''ws_messages_total'', ''room_creation_success'', ''game_join_success'',
      ''question_flag_success'']"

text \<open>
  A metrics document in the sense of the data model: a mapping whose \<^verbatim>\<open>metrics\<close> and
  \<^verbatim>\<open>state\<close> entries, and whose entries for the metrics the analyzer reads, are mappings
  wherever they are present.
\<close>

definition well_formed_document :: "pyval \<Rightarrow> bool" where
  "well_formed_document d \<longleftrightarrow>
     is_dict d \<and> dict_or_missing d [''metrics''] \<and> dict_or_missing d [''state''] \<and>
     (\<forall>name \<in> set metric_names. dict_or_missing d [''metrics'', name])"

definition field_or_zero :: "pyval \<Rightarrow> string list \<Rightarrow> pyval" where
  "field_or_zero d path = (case lookup_path d path of None \<Rightarrow> PInt 0 | Some v \<Rightarrow> v)"

text \<open>A number that a float can hold: any float or truth value, an integer below the limit.\<close>

fun float_convertible :: "pyval \<Rightarrow> bool" where
  "float_convertible (PInt i) = (\<bar>i\<bar> < float_limit)"
| "float_convertible (PBool b) = True"
| "float_convertible (PFloat r) = True"
| "float_convertible _ = False"

text \<open>A number whose quotient by the positive literal \<open>c\<close> a float can hold.\<close>

fun quotient_convertible :: "pyval \<Rightarrow> real \<Rightarrow> bool" where
  "quotient_convertible (PInt i) c = (\<bar>real_of_int i / c\<bar> < real_of_int float_limit)"
| "quotient_convertible (PBool b) c = True"
| "quotient_convertible (PFloat r) c = True"
| "quotient_convertible _ c = False"

text \<open>A number whose decimal text the interpreter writes.\<close>

definition decimal_number :: "pyval \<Rightarrow> bool" where
  "decimal_number v \<longleftrightarrow> as_number v \<noteq> None \<and> printable v"

text \<open>
  The seven values the indicators show are numbers within the interpreter's limits: four
  go through a float presentation, the duration is divided first, the request total and
  the virtual users are written as decimal text.
\<close>

definition numeric_indicators :: "performance \<Rightarrow> bool" where
  "numeric_indicators perf \<longleftrightarrow>
     float_convertible (p95 (http_requests perf)) \<and>
     float_convertible (failed_rate (http_requests perf)) \<and>
     float_convertible (latency_p95 (websocket perf)) \<and>
     decimal_number (total (http_requests perf)) \<and>
     float_convertible (rate (http_requests perf)) \<and>
     quotient_convertible (test_duration perf) 1000000000 \<and>
     decimal_number (max_vus perf)"

definition recommendations_header :: fstring where
  "recommendations_header = [Lit ''## Recommendations\<newline>\<newline>'']"

text \<open>The lines of a report between the Recommendations heading and the Next Steps heading.\<close>

definition recommendations_section :: "fstring list \<Rightarrow> fstring list" where
  "recommendations_section ls =
     takeWhile (\<lambda>l. l \<noteq> hd next_steps) (tl (dropWhile (\<lambda>l. l \<noteq> recommendations_header) ls))"

text \<open>A report with its generation-time line, the second string written, taken out.\<close>

definition aside_from_generated :: "error + report_result \<Rightarrow> error + fstring list" where
  "aside_from_generated res = map_sum id (\<lambda>r. take 1 (content r) @ drop 2 (content r)) res"

text \<open>The summary the analyzer is to return: each field is the nested value, or zero.\<close>

definition summary_of :: "pyval \<Rightarrow> performance" where
  "summary_of d =
     \<lparr>http_requests =
        \<lparr>total = field_or_zero d [''metrics'', ''http_reqs'', ''count''],
         rate = field_or_zero d [''metrics'', ''http_reqs'', ''rate''],
         p95 = field_or_zero d [''metrics'', ''http_req_duration'', ''p(95)''],
         p99 = field_or_zero d [''metrics'', ''http_req_duration'', ''p(99)''],
         failed_rate = field_or_zero d [''metrics'', ''http_req_failed'', ''rate'']\<rparr>,
      websocket =
        \<lparr>latency_p95 = field_or_zero d [''metrics'', ''ws_latency_ms'', ''p(95)''],
         messages_total = field_or_zero d [''metrics'', ''ws_messages_total'', ''count'']\<rparr>,
      business_metrics =
        \<lparr>room_creation_success =
           field_or_zero d [''metrics'', ''room_creation_success'', ''rate''],
         game_join_success = field_or_zero d [''metrics'', ''game_join_success'', ''rate''],
         question_flag_success =
           field_or_zero d [''metrics'', ''question_flag_success'', ''rate'']\<rparr>,
      test_duration = field_or_zero d [''state'', ''testRunDuration''],
      max_vus = field_or_zero d [''state'', ''maxVUs'']\<rparr>"

subsection \<open>Sample inputs\<close>

text \<open>A results document with every key the analyzer reads.\<close>

definition full_document :: pyval where
  "full_document =
     PDict [
       (''metrics'', PDict [
          (''http_reqs'', PDict [(''count'', PInt 12000), (''rate'', PFloat 200)]),
          (''http_req_duration'', PDict [(''p(95)'', PInt 250), (''p(99)'', PFloat 410)]),
          (''http_req_failed'', PDict [(''rate'', PFloat (1 / 100))]),
          (''ws_latency_ms'', PDict [(''p(95)'', PInt 80)]),
          (''ws_messages_total'', PDict [(''count'', PInt 5000)]),
          (''room_creation_success'', PDict [(''rate'', PFloat (99 / 100))]),
          (''game_join_success'', PDict [(''rate'', PFloat (97 / 100))]),
          (''question_flag_success'', PDict [(''rate'', PInt 1)])]),
       (''state'', PDict [(''testRunDuration'', PInt 60000000000), (''maxVUs'', PInt 100)])]"

text \<open>A document that names the run state only: no metric is present.\<close>

definition state_only_document :: pyval where
  "state_only_document = PDict [(''state'', PDict [(''maxVUs'', PInt 10)])]"

text \<open>The summary of the end-to-end scenario: HTTP p95 of 320, failure rate 0.02.\<close>

definition scenario_summary :: performance where
  "scenario_summary =
     \<lparr>http_requests = \<lparr>total = PInt 0, rate = PInt 0, p95 = PInt 320, p99 = PInt 0,
        failed_rate = PFloat (2 / 100)\<rparr>,
      websocket = \<lparr>latency_p95 = PInt 0, messages_total = PInt 0\<rparr>,
      business_metrics = \<lparr>room_creation_success = PInt 0, game_join_success = PInt 0,
        question_flag_success = PInt 0\<rparr>,
      test_duration = PInt 0,
      max_vus = PInt 0\<rparr>"

text \<open>A summary with all three assessed values exactly on their thresholds.\<close>

definition threshold_summary :: performance where
  "threshold_summary =
     \<lparr>http_requests = \<lparr>total = PInt 9000, rate = PFloat 150, p95 = PInt 300, p99 = PInt 450,
        failed_rate = PFloat (5 / 100)\<rparr>,
      websocket = \<lparr>latency_p95 = PInt 100, messages_total = PInt 700\<rparr>,
      business_metrics = \<lparr>room_creation_success = PInt 1, game_join_success = PInt 1,
        question_flag_success = PInt 1\<rparr>,
      test_duration = PInt 90000000000,
      max_vus = PInt 50\<rparr>"

definition sample_time :: datetime where
  "sample_time = \<lparr>year = 2024, month = 5, day = 17, hour = 9, minute = 30, second = 0\<rparr>"

definition later_time :: datetime where
  "later_time = \<lparr>year = 2024, month = 5, day = 17, hour = 9, minute = 30, second = 1\<rparr>"

text \<open>
  A line that opens like one of the lines of the System Resource Analysis section: its
  heading, a sub-heading, or one of the three bullet labels.
\<close>

definition system_line :: "fstring \<Rightarrow> bool" where
  "system_line l =
     (case l of
        Lit t # _ \<Rightarrow>
          t \<in> set [''\<newline>## System Resource Analysis\<newline>\<newline>'', ''### CPU Usage\<newline>'',
                   ''### Database Connections\<newline>'', ''### Redis Connections\<newline>'',
                   ''- **Average:** '', ''- **Peak:** '', ''- **95th Percentile:** '']
      | _ \<Rightarrow> False)"

text \<open>A resource series of two samples, one second apart.\<close>

definition sample_frame :: dataframe where
  "sample_frame =
     [\<lparr>col_timestamp = sample_time, col_cpu = 10, col_memory = 2048,
       col_db_connections = 4, col_redis_connections = 12\<rparr>,
      \<lparr>col_timestamp = later_time, col_cpu = 30, col_memory = 1024,
       col_db_connections = 8, col_redis_connections = 2\<rparr>]"













section \<open>Properties of the analyzers\<close>

subsection \<open>The exception monad and the field extraction\<close>

lemma rbind_Inr_iff: "rbind r f = Inr y \<longleftrightarrow> (\<exists>v. r = Inr v \<and> f v = Inr y)"
  by (cases r) (simp_all add: rbind_def)

lemma rbind_Inr [simp]: "rbind (Inr v) f = f v"
  by (simp add: rbind_def)

lemma rbind_Inl [simp]: "rbind (Inl e) f = Inl e"
  by (simp add: rbind_def)

lemma get_stat_well_formed:
  assumes "is_dict d" and "dict_or_missing d [name]"
  shows "get_stat d name stat = Inr (field_or_zero d [name, stat])"
proof -
  from assms(1) obtain kvs where d: "d = PDict kvs" by (cases d) simp_all
  show ?thesis
  proof (cases "map_of kvs name")
    case None
    with d show ?thesis by (simp add: get_stat_def field_or_zero_def)
  next
    case (Some m)
    with d assms(2) obtain kvs' where "m = PDict kvs'"
      by (cases m) (simp_all add: dict_or_missing_def)
    with d Some show ?thesis
      by (simp add: get_stat_def field_or_zero_def split: option.splits)
  qed
qed

lemma py_get_metrics:
  assumes "is_dict d" and "dict_or_missing d [''metrics'']"
  shows "\<exists>m. py_get d ''metrics'' (PDict []) = Inr m \<and> is_dict m \<and>
           (\<forall>p. p \<noteq> [] \<longrightarrow> lookup_path m p = lookup_path d (''metrics'' # p))"
proof -
  from assms(1) obtain kvs where d: "d = PDict kvs" by (cases d) simp_all
  show ?thesis
  proof (cases "map_of kvs ''metrics''")
    case None
    with d show ?thesis by (auto simp: neq_Nil_conv)
  next
    case (Some m)
    with d assms(2) show ?thesis by (auto simp: dict_or_missing_def)
  qed
qed

lemma metric_stat_well_formed:
  assumes "is_dict m" 
    and "\<forall>p. p \<noteq> [] \<longrightarrow> lookup_path m p = lookup_path d (''metrics'' # p)"
    and "dict_or_missing d [''metrics'', name]"
  shows "get_stat m name stat = Inr (field_or_zero d [''metrics'', name, stat])"
proof -
  from assms(2,3) have "dict_or_missing m [name]"
    by (simp add: dict_or_missing_def)
  with assms(1) have "get_stat m name stat = Inr (field_or_zero m [name, stat])"
    by (rule get_stat_well_formed)
  with assms(2) show ?thesis
    by (simp add: field_or_zero_def)
qed

lemma analyze_performance_well_formed:
  assumes wf: "well_formed_document d" and t: "truthy d"
  shows "analyze_performance d = Inr (Some (summary_of d))"
proof -
  from wf have dd: "is_dict d" and dm: "dict_or_missing d [''metrics'']"
    and ds: "dict_or_missing d [''state'']"
    and dn: "\<And>name. name \<in> set metric_names \<Longrightarrow> dict_or_missing d [''metrics'', name]"
    by (simp_all add: well_formed_document_def)
  from py_get_metrics [OF dd dm] obtain m where
    m: "py_get d ''metrics'' (PDict []) = Inr m" and im: "is_dict m"
    and lm: "\<forall>p. p \<noteq> [] \<longrightarrow> lookup_path m p = lookup_path d (''metrics'' # p)"
    by blast
  have ms: "\<And>name stat. name \<in> set metric_names \<Longrightarrow>
      get_stat m name stat = Inr (field_or_zero d [''metrics'', name, stat])"
    using metric_stat_well_formed [OF im lm] dn by blast
  have st: "\<And>stat. get_stat d ''state'' stat = Inr (field_or_zero d [''state'', stat])"
    using get_stat_well_formed [OF dd ds] .
  have names: "''http_reqs'' \<in> set metric_names" "''http_req_duration'' \<in> set metric_names"
    "''http_req_failed'' \<in> set metric_names" "''ws_latency_ms'' \<in> set metric_names"
    "''ws_messages_total'' \<in> set metric_names" "''room_creation_success'' \<in> set metric_names"
    "''game_join_success'' \<in> set metric_names" "''question_flag_success'' \<in> set metric_names"
    by (simp_all add: metric_names_def)
  show ?thesis
    unfolding analyze_performance_def summary_of_def
    using t by (simp add: m ms [OF names(1)] ms [OF names(2)] ms [OF names(3)] ms [OF names(4)]
       ms [OF names(5)] ms [OF names(6)] ms [OF names(7)] ms [OF names(8)] st)
qed

lemma analyze_performance_None_iff: "analyze_performance d = Inr None \<longleftrightarrow> \<not> truthy d"
  by (auto simp: analyze_performance_def rbind_Inr_iff)

lemma lookup_metric_shape:
  assumes "lookup_path d [''metrics'', name, stat] = Some v"
  shows "is_dict d \<and> truthy d \<and> dict_or_missing d [''metrics''] \<and>
         dict_or_missing d [''metrics'', name]"
proof -
  from assms obtain kvs where d: "d = PDict kvs" by (cases d) simp_all
  with assms obtain m where m: "map_of kvs ''metrics'' = Some m"
    and 1: "lookup_path m [name, stat] = Some v"
    by (auto split: option.splits)
  from 1 obtain kvs' where m': "m = PDict kvs'" by (cases m) simp_all
  with 1 obtain e where e: "map_of kvs' name = Some e" and 2: "lookup_path e [stat] = Some v"
    by (auto split: option.splits)
  from 2 have "is_dict e" by (cases e) simp_all
  with d m m' e show ?thesis
    by (auto simp: dict_or_missing_def)
qed

lemma lookup_state_shape:
  assumes "lookup_path d [''state'', k] = Some v"
  shows "dict_or_missing d [''state'']"
proof -
  from assms obtain kvs where d: "d = PDict kvs" by (cases d) simp_all
  with assms obtain m where m: "map_of kvs ''state'' = Some m"
    and 1: "lookup_path m [k] = Some v"
    by (auto split: option.splits)
  from 1 have "is_dict m" by (cases m) simp_all
  with d m show ?thesis
    by (simp add: dict_or_missing_def)
qed

subsection \<open>The performance summary\<close>

text \<open>
  C3: when every key the analyzer reads is present in the document, the summary holds
  exactly the nested values, unchanged: the value stored under
  \<^verbatim>\<open>metrics.http_req_duration.p(95)\<close> is the HTTP p95 of the summary, and likewise for
  the other eleven fields.
\<close>

theorem present_keys_pass_through:
  assumes "lookup_path d [''metrics'', ''http_reqs'', ''count''] = Some v_total"
    and "lookup_path d [''metrics'', ''http_reqs'', ''rate''] = Some v_rate"
    and "lookup_path d [''metrics'', ''http_req_duration'', ''p(95)''] = Some v_p95"
    and "lookup_path d [''metrics'', ''http_req_duration'', ''p(99)''] = Some v_p99"
    and "lookup_path d [''metrics'', ''http_req_failed'', ''rate''] = Some v_failed"
    and "lookup_path d [''metrics'', ''ws_latency_ms'', ''p(95)''] = Some v_ws_p95"
    and "lookup_path d [''metrics'', ''ws_messages_total'', ''count''] = Some v_ws_total"
    and "lookup_path d [''metrics'', ''room_creation_success'', ''rate''] = Some v_room"
    and "lookup_path d [''metrics'', ''game_join_success'', ''rate''] = Some v_join"
    and "lookup_path d [''metrics'', ''question_flag_success'', ''rate''] = Some v_flag"
    and "lookup_path d [''state'', ''testRunDuration''] = Some v_duration"
    and "lookup_path d [''state'', ''maxVUs''] = Some v_vus"
  shows "analyze_performance d = Inr (Some \<lparr>
           http_requests = \<lparr>total = v_total, rate = v_rate, p95 = v_p95, p99 = v_p99,
             failed_rate = v_failed\<rparr>,
           websocket = \<lparr>latency_p95 = v_ws_p95, messages_total = v_ws_total\<rparr>,
           business_metrics = \<lparr>room_creation_success = v_room, game_join_success = v_join,
             question_flag_success = v_flag\<rparr>,
           test_duration = v_duration,
           max_vus = v_vus\<rparr>)"
proof -
  note shapes = lookup_metric_shape [OF assms(1)] lookup_metric_shape [OF assms(3)]
    lookup_metric_shape [OF assms(5)] lookup_metric_shape [OF assms(6)]
    lookup_metric_shape [OF assms(7)] lookup_metric_shape [OF assms(8)]
    lookup_metric_shape [OF assms(9)] lookup_metric_shape [OF assms(10)]
    lookup_state_shape [OF assms(11)]
  from shapes have wf: "well_formed_document d"
    by (simp add: well_formed_document_def metric_names_def)
  from shapes have "truthy d" by simp
  with wf have "analyze_performance d = Inr (Some (summary_of d))"
    by (rule analyze_performance_well_formed)
  with assms show ?thesis
    by (simp add: summary_of_def field_or_zero_def)
qed

text \<open>On the sample document, whose \<^verbatim>\<open>p(95)\<close> is 250, the summary's HTTP p95 is 250.\<close>

theorem present_keys_pass_through_witness:
  "lookup_path full_document [''metrics'', ''http_req_duration'', ''p(95)''] = Some (PInt 250) \<and>
   analyze_performance full_document = Inr (Some \<lparr>
           http_requests = \<lparr>total = PInt 12000, rate = PFloat 200, p95 = PInt 250,
             p99 = PFloat 410, failed_rate = PFloat (1 / 100)\<rparr>,
           websocket = \<lparr>latency_p95 = PInt 80, messages_total = PInt 5000\<rparr>,
           business_metrics = \<lparr>room_creation_success = PFloat (99 / 100),
             game_join_success = PFloat (97 / 100), question_flag_success = PInt 1\<rparr>,
           test_duration = PInt 60000000000,
           max_vus = PInt 100\<rparr>)"
proof -
  have 1: "lookup_path full_document [''metrics'', ''http_reqs'', ''count''] = Some (PInt 12000)"
    and 2: "lookup_path full_document [''metrics'', ''http_reqs'', ''rate''] = Some (PFloat 200)"
    and 3: "lookup_path full_document [''metrics'', ''http_req_duration'', ''p(95)''] = Some (PInt 250)"
    and 4: "lookup_path full_document [''metrics'', ''http_req_duration'', ''p(99)''] = Some (PFloat 410)"
    and 5: "lookup_path full_document [''metrics'', ''http_req_failed'', ''rate''] = Some (PFloat (1 / 100))"
    and 6: "lookup_path full_document [''metrics'', ''ws_latency_ms'', ''p(95)''] = Some (PInt 80)"
    and 7: "lookup_path full_document [''metrics'', ''ws_messages_total'', ''count''] = Some (PInt 5000)"
    and 8: "lookup_path full_document [''metrics'', ''room_creation_success'', ''rate''] = Some (PFloat (99 / 100))"
    and 9: "lookup_path full_document [''metrics'', ''game_join_success'', ''rate''] = Some (PFloat (97 / 100))"
    and 10: "lookup_path full_document [''metrics'', ''question_flag_success'', ''rate''] = Some (PInt 1)"
    and 11: "lookup_path full_document [''state'', ''testRunDuration''] = Some (PInt 60000000000)"
    and 12: "lookup_path full_document [''state'', ''maxVUs''] = Some (PInt 100)"
    by (simp_all add: full_document_def)
  from present_keys_pass_through [OF 1 2 3 4 5 6 7 8 9 10 11 12] 3 show ?thesis
    by simp
qed

text \<open>
  The empty document is a mapping in which every key is missing, yet the analyzer returns
  no summary for it, so no field of a summary is zero there.
\<close>

theorem empty_document_summary_counterexample:
  "well_formed_document (PDict []) \<and>
   lookup_path (PDict []) [''metrics'', ''http_reqs'', ''count''] = None \<and>
   analyze_performance (PDict []) = Inr None"
  by (simp add: well_formed_document_def dict_or_missing_def analyze_performance_def)

text \<open>
  C1: for a non-empty metrics document (a mapping whose entries read by the analyzer are
  mappings wherever present), the analyzer does not raise and returns a summary in which
  every field whose metric name or statistic key is missing is the integer 0.
\<close>

theorem missing_keys_default_to_zero:
  assumes "well_formed_document d" and "truthy d"
  shows "\<exists>a. analyze_performance d = Inr (Some a) \<and>
    (lookup_path d [''metrics'', ''http_reqs'', ''count''] = None \<longrightarrow>
       total (http_requests a) = PInt 0) \<and>
    (lookup_path d [''metrics'', ''http_reqs'', ''rate''] = None \<longrightarrow>
       rate (http_requests a) = PInt 0) \<and>
    (lookup_path d [''metrics'', ''http_req_duration'', ''p(95)''] = None \<longrightarrow>
       p95 (http_requests a) = PInt 0) \<and>
    (lookup_path d [''metrics'', ''http_req_duration'', ''p(99)''] = None \<longrightarrow>
       p99 (http_requests a) = PInt 0) \<and>
    (lookup_path d [''metrics'', ''http_req_failed'', ''rate''] = None \<longrightarrow>
       failed_rate (http_requests a) = PInt 0) \<and>
    (lookup_path d [''metrics'', ''ws_latency_ms'', ''p(95)''] = None \<longrightarrow>
       latency_p95 (websocket a) = PInt 0) \<and>
    (lookup_path d [''metrics'', ''ws_messages_total'', ''count''] = None \<longrightarrow>
       messages_total (websocket a) = PInt 0) \<and>
    (lookup_path d [''metrics'', ''room_creation_success'', ''rate''] = None \<longrightarrow>
       room_creation_success (business_metrics a) = PInt 0) \<and>
    (lookup_path d [''metrics'', ''game_join_success'', ''rate''] = None \<longrightarrow>
       game_join_success (business_metrics a) = PInt 0) \<and>
    (lookup_path d [''metrics'', ''question_flag_success'', ''rate''] = None \<longrightarrow>
       question_flag_success (business_metrics a) = PInt 0) \<and>
    (lookup_path d [''state'', ''testRunDuration''] = None \<longrightarrow> test_duration a = PInt 0) \<and>
    (lookup_path d [''state'', ''maxVUs''] = None \<longrightarrow> max_vus a = PInt 0)"
proof -
  from assms have "analyze_performance d = Inr (Some (summary_of d))"
    by (rule analyze_performance_well_formed)
  then show ?thesis
    by (simp add: summary_of_def field_or_zero_def)
qed

text \<open>A document with a run state and no metrics: all metric fields and the duration are 0.\<close>

theorem missing_keys_default_to_zero_witness:
  "well_formed_document state_only_document \<and> truthy state_only_document \<and>
   lookup_path state_only_document [''metrics'', ''http_req_duration'', ''p(95)''] = None \<and>
   lookup_path state_only_document [''state'', ''testRunDuration''] = None \<and>
   (\<exists>a. analyze_performance state_only_document = Inr (Some a) \<and>
        total (http_requests a) = PInt 0 \<and> rate (http_requests a) = PInt 0 \<and>
        p95 (http_requests a) = PInt 0 \<and> p99 (http_requests a) = PInt 0 \<and>
        failed_rate (http_requests a) = PInt 0 \<and> latency_p95 (websocket a) = PInt 0 \<and>
        messages_total (websocket a) = PInt 0 \<and>
        room_creation_success (business_metrics a) = PInt 0 \<and>
        game_join_success (business_metrics a) = PInt 0 \<and>
        question_flag_success (business_metrics a) = PInt 0 \<and>
        test_duration a = PInt 0)"
proof -
  have wf: "well_formed_document state_only_document"
    by (simp add: well_formed_document_def state_only_document_def dict_or_missing_def
        metric_names_def)
  have t: "truthy state_only_document"
    by (simp add: state_only_document_def)
  have l: "lookup_path state_only_document [''metrics'', n, s] = None" 
     "lookup_path state_only_document [''state'', ''testRunDuration''] = None" for n s
    by (simp_all add: state_only_document_def)
  from missing_keys_default_to_zero [OF wf t] wf t l show ?thesis
    by auto
qed

text \<open>The empty document is present, not \<^verbatim>\<open>None\<close>, and still gets an absent result.\<close>

theorem empty_document_absent_counterexample:
  "PDict [] \<noteq> PNone \<and> analyze_performance (PDict []) = Inr None"
  by (simp add: analyze_performance_def)

text \<open>
  C2: the analyzer returns an absent result exactly when the document is falsy, which for
  a document means absent (\<^verbatim>\<open>None\<close>) or the empty mapping; every other metrics document,
  also one with none of the keys read, gets a present summary.
\<close>

theorem absent_iff_falsy:
  "(analyze_performance d = Inr None \<longleftrightarrow> \<not> truthy d) \<and>
   (is_dict d \<or> d = PNone \<longrightarrow> (\<not> truthy d \<longleftrightarrow> d = PNone \<or> d = PDict [])) \<and>
   (well_formed_document d \<and> d \<noteq> PDict [] \<longrightarrow> (\<exists>a. analyze_performance d = Inr (Some a)))"
proof (intro conjI impI)
  show "analyze_performance d = Inr None \<longleftrightarrow> \<not> truthy d"
    by (rule analyze_performance_None_iff)
  show "\<not> truthy d \<longleftrightarrow> d = PNone \<or> d = PDict []" if "is_dict d \<or> d = PNone"
    using that by (cases d) auto
  show "\<exists>a. analyze_performance d = Inr (Some a)" if "well_formed_document d \<and> d \<noteq> PDict []"
  proof -
    from that have "is_dict d" by (simp add: well_formed_document_def)
    with that have "truthy d" by (cases d) auto
    with that show ?thesis
      using analyze_performance_well_formed by blast
  qed
qed

text \<open>An absent document, and a present one whose \<^verbatim>\<open>metrics\<close> mapping is empty.\<close>

theorem absent_iff_falsy_witness:
  "analyze_performance PNone = Inr None \<and>
   well_formed_document (PDict [(''metrics'', PDict [])]) \<and>
   (\<exists>a. analyze_performance (PDict [(''metrics'', PDict [])]) = Inr (Some a))"
proof -
  have wf: "well_formed_document (PDict [(''metrics'', PDict [])])"
    by (simp add: well_formed_document_def dict_or_missing_def metric_names_def)
  from absent_iff_falsy [of PNone] absent_iff_falsy [of "PDict [(''metrics'', PDict [])]"] wf
  show ?thesis by simp
qed

section \<open>Properties of the report writer\<close>

subsection \<open>The interpreter's limits\<close>

lemma format_num_overflow: "format_num (PInt float_limit) ''.2f'' = Inl OverflowError"
  by (simp add: float_presentation_def)

lemma py_truediv_overflow:
  "py_truediv (PInt (float_limit * 1000000000)) 1000000000 = Inl OverflowError"
  by simp

subsection \<open>The shape of a report\<close>

lemma float_convertible_number: "float_convertible v \<Longrightarrow> \<exists>x. as_number v = Some x"
  by (cases v) simp_all

lemma quotient_convertible_number: "quotient_convertible v c \<Longrightarrow> \<exists>x. as_number v = Some x"
  by (cases v) simp_all

lemma format_num_float:
  "float_convertible v \<Longrightarrow> float_presentation spec \<Longrightarrow> format_num v spec = Inr (Fmt v spec)"
  by (cases v) simp_all

lemma format_num_decimal: "decimal_number v \<Longrightarrow> format_num v '','' = Inr (Fmt v '','')"
  by (cases v) (simp_all add: decimal_number_def float_presentation_def)

lemma format_plain_decimal: "decimal_number v \<Longrightarrow> format_plain v = Inr (Fmt v [])"
  by (simp add: decimal_number_def format_plain_def)

lemma below_digit_limit: "\<bar>i\<bar> < 10 ^ 12 \<Longrightarrow> \<bar>i::int\<bar> < 10 ^ max_str_digits"
proof -
  have "(10::int) ^ 12 \<le> 10 ^ max_str_digits"
    by (rule power_increasing) (simp_all add: max_str_digits_def)
  then show "\<bar>i\<bar> < 10 ^ 12 \<Longrightarrow> \<bar>i\<bar> < 10 ^ max_str_digits"
    by (rule order.strict_trans2 [rotated])
qed

lemma decimal_number_small: "\<bar>i\<bar> < 10 ^ 12 \<Longrightarrow> decimal_number (PInt i)"
  by (simp add: decimal_number_def below_digit_limit)

lemma float_presentations:
  "float_presentation ''.2f''" "float_presentation ''.1f''" "float_presentation ''.2%''"
  by (simp_all add: float_presentation_def)

lemma py_lt_numeric: "as_number v = Some x \<Longrightarrow> py_lt v c = Inr (x < c)"
  by (simp add: py_lt_def)

lemma py_gt_numeric: "as_number v = Some x \<Longrightarrow> py_gt v c = Inr (x > c)"
  by (simp add: py_gt_def)

lemma py_truediv_numeric:
  "quotient_convertible v c \<Longrightarrow> py_truediv v c = Inr (PFloat (the (as_number v) / c))"
  by (cases v) simp_all

lemma executive_summary_no_heading:
  assumes "executive_summary perf = Inr sl"
  shows "recommendations_header \<notin> set sl"
  using assms
  by (auto simp: executive_summary_def rbind_Inr_iff recommendations_header_def Let_def
        http_within_line_def http_exceeds_line_def error_within_line_def error_exceeds_line_def
        ws_within_line_def ws_exceeds_line_def
      split: option.splits if_splits)

lemma system_resource_section_no_heading:
  "recommendations_header \<notin> set (system_resource_section sys)"
  by (auto simp: system_resource_section_def recommendations_header_def split: option.splits)

lemma performance_recommendations_no_next_steps:
  assumes "performance_recommendations perf = Inr pl"
  shows "hd next_steps \<notin> set pl"
  using assms
  by (auto simp: performance_recommendations_def rbind_Inr_iff next_steps_def
        http_block_def error_block_def ws_block_def
      split: option.splits if_splits)

lemma system_recommendations_no_next_steps:
  "hd next_steps \<notin> set (system_recommendations sys)"
  by (auto simp: system_recommendations_def next_steps_def cpu_block_def db_block_def
        redis_block_def split: option.splits)

lemma generate_report_Inr:
  assumes "generate_report perf sys dir t1 t2 = Inr r"
  obtains sl pl where "executive_summary perf = Inr sl"
    and "performance_recommendations perf = Inr pl"
    and "content r =
          [[Lit ''# Party Puzzle Palooza Load Test Performance Report\<newline>\<newline>''],
           generated_line t2,
           [Lit ''## Executive Summary\<newline>\<newline>'']] @
          sl @ system_resource_section sys @ [recommendations_header] @ pl @
          system_recommendations sys @ next_steps"
  using assms
  by (auto simp: generate_report_def rbind_Inr_iff Let_def recommendations_header_def)

lemma recommendations_section_content:
  assumes "executive_summary perf = Inr sl"
    and "performance_recommendations perf = Inr pl"
    and "c = [[Lit ''# Party Puzzle Palooza Load Test Performance Report\<newline>\<newline>''],
           generated_line t2,
           [Lit ''## Executive Summary\<newline>\<newline>'']] @
          sl @ system_resource_section sys @ [recommendations_header] @ pl @
          system_recommendations sys @ next_steps"
  shows "recommendations_section c = pl @ system_recommendations sys"
proof -
  let ?pre = "[[Lit ''# Party Puzzle Palooza Load Test Performance Report\<newline>\<newline>''],
           generated_line t2,
           [Lit ''## Executive Summary\<newline>\<newline>'']] @
          sl @ system_resource_section sys"
  let ?recs = "pl @ system_recommendations sys"
  have pre: "\<And>l. l \<in> set ?pre \<Longrightarrow> l \<noteq> recommendations_header"
    using executive_summary_no_heading [OF assms(1)] system_resource_section_no_heading [of sys]
    by (auto simp: recommendations_header_def generated_line_def)
  have c: "c = ?pre @ recommendations_header # ?recs @ next_steps"
    using assms(3) by simp
  have d: "dropWhile (\<lambda>l. l \<noteq> recommendations_header) c =
      recommendations_header # ?recs @ next_steps"
    unfolding c using pre by (subst dropWhile_append2) simp_all
  have recs: "\<And>l. l \<in> set ?recs \<Longrightarrow> l \<noteq> hd next_steps"
    using performance_recommendations_no_next_steps [OF assms(2)]
      system_recommendations_no_next_steps [of sys]
    by auto
  have n: "takeWhile (\<lambda>l. l \<noteq> hd next_steps) next_steps = []"
    by (simp add: next_steps_def)
  have "takeWhile (\<lambda>l. l \<noteq> hd next_steps) (?recs @ next_steps) =
      ?recs @ takeWhile (\<lambda>l. l \<noteq> hd next_steps) next_steps"
    using recs by (rule takeWhile_append2)
  with d n show ?thesis
    unfolding recommendations_section_def by simp
qed

lemma executive_summary_numeric:
  assumes "numeric_indicators perf"
  shows "executive_summary (Some perf) = Inr
     [[Lit ''### Key Performance Indicators\<newline>\<newline>''],
      [Lit ''- **HTTP Response Time (p95):** '', Fmt (p95 (http_requests perf)) ''.2f'',
       Lit ''ms\<newline>''],
      [Lit ''- **Error Rate:** '', Fmt (failed_rate (http_requests perf)) ''.2%'',
       Lit ''\<newline>''],
      [Lit ''- **WebSocket Latency (p95):** '', Fmt (latency_p95 (websocket perf)) ''.2f'',
       Lit ''ms\<newline>''],
      [Lit ''- **Total Requests:** '', Fmt (total (http_requests perf)) '','',
       Lit ''\<newline>''],
      [Lit ''- **Request Rate:** '', Fmt (rate (http_requests perf)) ''.2f'',
       Lit '' req/s\<newline>''],
      [Lit ''- **Test Duration:** '',
       Fmt (PFloat (the (as_number (test_duration perf)) / 1000000000)) ''.1f'',
       Lit ''s\<newline>''],
      [Lit ''- **Max Virtual Users:** '', Fmt (max_vus perf) [], Lit ''\<newline>\<newline>''],
      [Lit ''### Performance Assessment\<newline>\<newline>''],
      (if the (as_number (p95 (http_requests perf))) < 300
       then http_within_line else http_exceeds_line),
      (if the (as_number (failed_rate (http_requests perf))) < 5 / 100
       then error_within_line else error_exceeds_line),
      (if the (as_number (latency_p95 (websocket perf))) < 100
       then ws_within_line else ws_exceeds_line)]"
proof -
  from assms have c: "float_convertible (p95 (http_requests perf))"
    "float_convertible (failed_rate (http_requests perf))"
    "float_convertible (latency_p95 (websocket perf))"
    "decimal_number (total (http_requests perf))"
    "float_convertible (rate (http_requests perf))"
    "quotient_convertible (test_duration perf) 1000000000"
    "decimal_number (max_vus perf)"
    by (simp_all add: numeric_indicators_def)
  from float_convertible_number [OF c(1)] obtain x where
    x: "as_number (p95 (http_requests perf)) = Some x" by blast
  from float_convertible_number [OF c(2)] obtain y where
    y: "as_number (failed_rate (http_requests perf)) = Some y" by blast
  from float_convertible_number [OF c(3)] obtain z where
    z: "as_number (latency_p95 (websocket perf)) = Some z" by blast
  note n = x y z
  show ?thesis
    by (simp add: executive_summary_def Let_def format_num_float [OF c(1)]
        format_num_float [OF c(2)] format_num_float [OF c(3)] format_num_decimal [OF c(4)]
        format_num_float [OF c(5)] py_truediv_numeric [OF c(6)] format_plain_decimal [OF c(7)]
        float_presentations py_lt_numeric [OF n(1)] py_lt_numeric [OF n(2)]
        py_lt_numeric [OF n(3)] n)
qed

lemma performance_recommendations_numeric:
  assumes "numeric_indicators perf"
  shows "performance_recommendations (Some perf) = Inr
     ((if the (as_number (p95 (http_requests perf))) > 300 then http_block else []) @
      (if the (as_number (failed_rate (http_requests perf))) > 5 / 100 then error_block else []) @
      (if the (as_number (latency_p95 (websocket perf))) > 100 then ws_block else []))"
proof -
  from assms have c: "float_convertible (p95 (http_requests perf))"
    "float_convertible (failed_rate (http_requests perf))"
    "float_convertible (latency_p95 (websocket perf))"
    by (simp_all add: numeric_indicators_def)
  from float_convertible_number [OF c(1)] obtain x where
    x: "as_number (p95 (http_requests perf)) = Some x" by blast
  from float_convertible_number [OF c(2)] obtain y where
    y: "as_number (failed_rate (http_requests perf)) = Some y" by blast
  from float_convertible_number [OF c(3)] obtain z where
    z: "as_number (latency_p95 (websocket perf)) = Some z" by blast
  show ?thesis
    by (simp add: performance_recommendations_def py_gt_numeric [OF x] py_gt_numeric [OF y]
        py_gt_numeric [OF z] x y z)
qed

lemma generate_report_numeric:
  assumes "numeric_indicators perf"
  obtains r sl pl where "generate_report (Some perf) sys dir t1 t2 = Inr r"
    and "executive_summary (Some perf) = Inr sl"
    and "performance_recommendations (Some perf) = Inr pl"
    and "content r =
          [[Lit ''# Party Puzzle Palooza Load Test Performance Report\<newline>\<newline>''],
           generated_line t2,
           [Lit ''## Executive Summary\<newline>\<newline>'']] @
          sl @ system_resource_section sys @ [recommendations_header] @ pl @
          system_recommendations sys @ next_steps"
  using executive_summary_numeric [OF assms] performance_recommendations_numeric [OF assms]
  by (simp add: generate_report_def Let_def recommendations_header_def)

lemma blocks_distinct:
  "distinct (http_block @ error_block @ ws_block @ cpu_block @ db_block @ redis_block)"
  by (simp add: http_block_def error_block_def ws_block_def cpu_block_def db_block_def
      redis_block_def)

lemma system_recommendations_subset:
  "set (system_recommendations sys) \<subseteq> set cpu_block \<union> set db_block \<union> set redis_block"
  by (auto simp: system_recommendations_def split: option.splits if_splits)

lemma two_pieces_only_in_summary:
  assumes "content r =
          [[Lit ''# Party Puzzle Palooza Load Test Performance Report\<newline>\<newline>''],
           generated_line t2,
           [Lit ''## Executive Summary\<newline>\<newline>'']] @
          sl @ system_resource_section sys @ [recommendations_header] @ pl @
          system_recommendations sys @ next_steps"
    and "performance_recommendations perf = Inr pl"
    and "l \<in> set (content r)" and "length l = 2"
  shows "l \<in> set sl"
proof -
  have 1: "\<And>x. x \<in> set (system_resource_section sys) \<Longrightarrow> length x \<noteq> 2"
    by (auto simp: system_resource_section_def split: option.splits)
  have 2: "\<And>x. x \<in> set (system_recommendations sys) \<Longrightarrow> length x \<noteq> 2"
    by (auto simp: system_recommendations_def cpu_block_def db_block_def redis_block_def
        split: option.splits if_splits)
  have 3: "\<And>x. x \<in> set pl \<Longrightarrow> length x \<noteq> 2"
    using assms(2)
    by (auto simp: performance_recommendations_def rbind_Inr_iff http_block_def
        error_block_def ws_block_def split: option.splits if_splits)
  have 4: "\<And>x. x \<in> set next_steps \<Longrightarrow> length x \<noteq> 2"
    by (auto simp: next_steps_def)
  from assms(1,3,4) 1 2 3 4 show ?thesis
    by (auto simp: generated_line_def recommendations_header_def)
qed

lemma assessment_lines_distinct:
  "distinct [http_within_line, http_exceeds_line, error_within_line, error_exceeds_line,
     ws_within_line, ws_exceeds_line]"
  by (simp add: http_within_line_def http_exceeds_line_def error_within_line_def
      error_exceeds_line_def ws_within_line_def ws_exceeds_line_def check_mark_def
      cross_mark_def)

lemma assessment_lines_length:
  "length http_within_line = 2" "length http_exceeds_line = 2"
  "length error_within_line = 2" "length error_exceeds_line = 2"
  "length ws_within_line = 2" "length ws_exceeds_line = 2"
  by (simp_all add: http_within_line_def http_exceeds_line_def error_within_line_def
      error_exceeds_line_def ws_within_line_def ws_exceeds_line_def)

lemma two_piece_summary_lines:
  assumes "numeric_indicators perf" and "executive_summary (Some perf) = Inr sl"
    and "l \<in> set sl" and "length l = 2"
  shows "l = (if the (as_number (p95 (http_requests perf))) < 300
              then http_within_line else http_exceeds_line) \<or>
         l = (if the (as_number (failed_rate (http_requests perf))) < 5 / 100
              then error_within_line else error_exceeds_line) \<or>
         l = (if the (as_number (latency_p95 (websocket perf))) < 100
              then ws_within_line else ws_exceeds_line)"
  using assms(2-) unfolding executive_summary_numeric [OF assms(1)]
  by auto

lemma numeric_scenario_summary: "numeric_indicators scenario_summary"
  by (simp add: numeric_indicators_def scenario_summary_def decimal_number_small
      float_limit_def)

subsection \<open>Assessment lines and recommendation blocks\<close>

text \<open>
  C4: for a performance summary whose HTTP p95 is 320 and whose HTTP failure rate is 0.02
  (the indicators being numbers within the interpreter's limits, so that no indicator
  line raises), the report carries the failing line for HTTP
  response time and the passing line for the error rate, and not their opposites; its
  Recommendations section starts with the three HTTP-optimization bullets and contains
  none of the error-investigation bullets.
\<close>

theorem scenario_http_fails_error_passes:
  assumes "numeric_indicators perf"
    and "as_number (p95 (http_requests perf)) = Some 320"
    and "as_number (failed_rate (http_requests perf)) = Some (2 / 100)"
  shows "\<exists>r. generate_report (Some perf) sys dir t1 t2 = Inr r \<and>
     http_exceeds_line \<in> set (content r) \<and> http_within_line \<notin> set (content r) \<and>
     error_within_line \<in> set (content r) \<and> error_exceeds_line \<notin> set (content r) \<and>
     take 3 (recommendations_section (content r)) = http_block \<and>
     set error_block \<inter> set (recommendations_section (content r)) = {}"
proof -
  from generate_report_numeric [OF assms(1)] obtain r sl pl where
    r: "generate_report (Some perf) sys dir t1 t2 = Inr r"
    and sl: "executive_summary (Some perf) = Inr sl"
    and pl: "performance_recommendations (Some perf) = Inr pl"
    and c: "content r =
          [[Lit ''# Party Puzzle Palooza Load Test Performance Report\<newline>\<newline>''],
           generated_line t2,
           [Lit ''## Executive Summary\<newline>\<newline>'']] @
          sl @ system_resource_section sys @ [recommendations_header] @ pl @
          system_recommendations sys @ next_steps"
    by blast
  have sl_in: "set sl \<subseteq> set (content r)" by (auto simp: c)
  have "http_exceeds_line \<in> set sl" "error_within_line \<in> set sl"
    using sl assms(2,3) unfolding executive_summary_numeric [OF assms(1)] by auto
  with sl_in have pos: "http_exceeds_line \<in> set (content r)" "error_within_line \<in> set (content r)"
    by auto
  have neg: "l \<notin> set (content r)" if "l = http_within_line \<or> l = error_exceeds_line" for l
  proof
    assume "l \<in> set (content r)"
    moreover from that have len: "length l = 2" by (auto simp: assessment_lines_length)
    ultimately have "l \<in> set sl" using two_pieces_only_in_summary [OF c pl] by blast
    from two_piece_summary_lines [OF assms(1) sl this len] that assms(2,3)
    show False using assessment_lines_distinct by (auto split: if_splits)
  qed
  have pl_eq: "pl = http_block @
      (if the (as_number (latency_p95 (websocket perf))) > 100 then ws_block else [])"
    using pl assms(2,3) unfolding performance_recommendations_numeric [OF assms(1)] by simp
  have recs: "recommendations_section (content r) = pl @ system_recommendations sys"
    using recommendations_section_content [OF sl pl c] .
  have "take 3 (recommendations_section (content r)) = http_block"
    unfolding recs pl_eq by (simp add: http_block_def)
  moreover have "set error_block \<inter> set (recommendations_section (content r)) = {}"
    unfolding recs pl_eq using blocks_distinct system_recommendations_subset [of sys]
    by (auto split: if_splits)
  ultimately show ?thesis
    using r pos neg by blast
qed

text \<open>The scenario summary itself, with no resource summary: the section is the HTTP block.\<close>

theorem scenario_http_fails_error_passes_witness:
  "numeric_indicators scenario_summary \<and>
   as_number (p95 (http_requests scenario_summary)) = Some 320 \<and>
   as_number (failed_rate (http_requests scenario_summary)) = Some (2 / 100) \<and>
   (\<exists>r. generate_report (Some scenario_summary) None ''out'' sample_time sample_time = Inr r \<and>
     http_exceeds_line \<in> set (content r) \<and> error_within_line \<in> set (content r) \<and>
     recommendations_section (content r) = http_block)"
proof -
  have 1: "as_number (p95 (http_requests scenario_summary)) = Some 320"
    and 2: "as_number (failed_rate (http_requests scenario_summary)) = Some (2 / 100)"
    by (simp_all add: scenario_summary_def)
  from scenario_http_fails_error_passes [OF numeric_scenario_summary 1 2, of None "''out''" sample_time sample_time]
  obtain r where r: "generate_report (Some scenario_summary) None ''out'' sample_time sample_time = Inr r"
    and l: "http_exceeds_line \<in> set (content r)" "error_within_line \<in> set (content r)"
    by blast
  from generate_report_Inr [OF r] obtain sl pl where
    sl: "executive_summary (Some scenario_summary) = Inr sl"
    and pl: "performance_recommendations (Some scenario_summary) = Inr pl"
    and c: "content r =
          [[Lit ''# Party Puzzle Palooza Load Test Performance Report\<newline>\<newline>''],
           generated_line sample_time,
           [Lit ''## Executive Summary\<newline>\<newline>'']] @
          sl @ system_resource_section None @ [recommendations_header] @ pl @
          system_recommendations None @ next_steps"
    by blast
  have "pl = http_block"
    using pl unfolding performance_recommendations_numeric [OF numeric_scenario_summary]
    by (simp add: scenario_summary_def)
  with recommendations_section_content [OF sl pl c]
  have "recommendations_section (content r) = http_block"
    by (simp add: system_recommendations_def)
  with r l numeric_scenario_summary 1 2 show ?thesis by blast
qed

text \<open>
  C10: a value exactly on its threshold (HTTP p95 of 300, error rate of 0.05, WebSocket
  p95 of 100) gets the failing assessment line, because passing needs a value strictly
  below the threshold, and no recommendation block, because that needs a value strictly
  above it. This holds for each of the three thresholds on its own, in every report
  whose indicators are numbers within the interpreter's limits.
\<close>

theorem on_threshold_fails_without_recommendation:
  assumes "numeric_indicators perf"
  shows "\<exists>r. generate_report (Some perf) sys dir t1 t2 = Inr r \<and>
    (as_number (p95 (http_requests perf)) = Some 300 \<longrightarrow>
       http_exceeds_line \<in> set (content r) \<and> http_within_line \<notin> set (content r) \<and>
       set http_block \<inter> set (recommendations_section (content r)) = {}) \<and>
    (as_number (failed_rate (http_requests perf)) = Some (5 / 100) \<longrightarrow>
       error_exceeds_line \<in> set (content r) \<and> error_within_line \<notin> set (content r) \<and>
       set error_block \<inter> set (recommendations_section (content r)) = {}) \<and>
    (as_number (latency_p95 (websocket perf)) = Some 100 \<longrightarrow>
       ws_exceeds_line \<in> set (content r) \<and> ws_within_line \<notin> set (content r) \<and>
       set ws_block \<inter> set (recommendations_section (content r)) = {})"
proof -
  from generate_report_numeric [OF assms] obtain r sl pl where
    r: "generate_report (Some perf) sys dir t1 t2 = Inr r"
    and sl: "executive_summary (Some perf) = Inr sl"
    and pl: "performance_recommendations (Some perf) = Inr pl"
    and c: "content r =
          [[Lit ''# Party Puzzle Palooza Load Test Performance Report\<newline>\<newline>''],
           generated_line t2,
           [Lit ''## Executive Summary\<newline>\<newline>'']] @
          sl @ system_resource_section sys @ [recommendations_header] @ pl @
          system_recommendations sys @ next_steps"
    by blast
  have sl_in: "set sl \<subseteq> set (content r)" by (auto simp: c)
  have recs: "recommendations_section (content r) = pl @ system_recommendations sys"
    using recommendations_section_content [OF sl pl c] .
  note sl_eq = sl [unfolded executive_summary_numeric [OF assms]]
  note pl_eq = pl [unfolded performance_recommendations_numeric [OF assms]]
  have two: "l \<in> set (content r) \<Longrightarrow> length l = 2 \<Longrightarrow>
      l = (if the (as_number (p95 (http_requests perf))) < 300
              then http_within_line else http_exceeds_line) \<or>
      l = (if the (as_number (failed_rate (http_requests perf))) < 5 / 100
              then error_within_line else error_exceeds_line) \<or>
      l = (if the (as_number (latency_p95 (websocket perf))) < 100
              then ws_within_line else ws_exceeds_line)" for l
    using two_piece_summary_lines [OF assms sl] two_pieces_only_in_summary [OF c pl] by blast
  have http: "http_exceeds_line \<in> set (content r) \<and> http_within_line \<notin> set (content r) \<and>
       set http_block \<inter> set (recommendations_section (content r)) = {}"
    if h: "as_number (p95 (http_requests perf)) = Some 300"
  proof (intro conjI)
    from sl_eq h have "http_exceeds_line \<in> set sl" by auto
    with sl_in show "http_exceeds_line \<in> set (content r)" by auto
    show "http_within_line \<notin> set (content r)"
      using two [of http_within_line] h assessment_lines_distinct
      by (auto simp: assessment_lines_length split: if_splits)
    show "set http_block \<inter> set (recommendations_section (content r)) = {}"
      unfolding recs using pl_eq h blocks_distinct system_recommendations_subset [of sys]
      by (auto split: if_splits)
  qed
  have err: "error_exceeds_line \<in> set (content r) \<and> error_within_line \<notin> set (content r) \<and>
       set error_block \<inter> set (recommendations_section (content r)) = {}"
    if h: "as_number (failed_rate (http_requests perf)) = Some (5 / 100)"
  proof (intro conjI)
    from sl_eq h have "error_exceeds_line \<in> set sl" by auto
    with sl_in show "error_exceeds_line \<in> set (content r)" by auto
    show "error_within_line \<notin> set (content r)"
      using two [of error_within_line] h assessment_lines_distinct
      by (auto simp: assessment_lines_length split: if_splits)
    show "set error_block \<inter> set (recommendations_section (content r)) = {}"
      unfolding recs using pl_eq h blocks_distinct system_recommendations_subset [of sys]
      by (auto split: if_splits)
  qed
  have ws: "ws_exceeds_line \<in> set (content r) \<and> ws_within_line \<notin> set (content r) \<and>
       set ws_block \<inter> set (recommendations_section (content r)) = {}"
    if h: "as_number (latency_p95 (websocket perf)) = Some 100"
  proof (intro conjI)
    from sl_eq h have "ws_exceeds_line \<in> set sl" by auto
    with sl_in show "ws_exceeds_line \<in> set (content r)" by auto
    show "ws_within_line \<notin> set (content r)"
      using two [of ws_within_line] h assessment_lines_distinct
      by (auto simp: assessment_lines_length split: if_splits)
    show "set ws_block \<inter> set (recommendations_section (content r)) = {}"
      unfolding recs using pl_eq h blocks_distinct system_recommendations_subset [of sys]
      by (auto split: if_splits)
  qed
  from r http err ws show ?thesis by blast
qed

lemma numeric_threshold_summary: "numeric_indicators threshold_summary"
  by (simp add: numeric_indicators_def threshold_summary_def decimal_number_small
      float_limit_def)

text \<open>The summary with all three values on their thresholds.\<close>

theorem on_threshold_fails_without_recommendation_witness:
  "numeric_indicators threshold_summary \<and>
   as_number (p95 (http_requests threshold_summary)) = Some 300 \<and>
   as_number (failed_rate (http_requests threshold_summary)) = Some (5 / 100) \<and>
   as_number (latency_p95 (websocket threshold_summary)) = Some 100 \<and>
   (\<exists>r. generate_report (Some threshold_summary) None ''out'' sample_time sample_time = Inr r \<and>
     http_exceeds_line \<in> set (content r) \<and> error_exceeds_line \<in> set (content r) \<and>
     ws_exceeds_line \<in> set (content r) \<and>
     set http_block \<inter> set (recommendations_section (content r)) = {} \<and>
     set error_block \<inter> set (recommendations_section (content r)) = {} \<and>
     set ws_block \<inter> set (recommendations_section (content r)) = {})"
proof -
  have 1: "as_number (p95 (http_requests threshold_summary)) = Some 300"
    and 2: "as_number (failed_rate (http_requests threshold_summary)) = Some (5 / 100)"
    and 3: "as_number (latency_p95 (websocket threshold_summary)) = Some 100"
    by (simp_all add: threshold_summary_def)
  from on_threshold_fails_without_recommendation [OF numeric_threshold_summary,
      of None "''out''" sample_time sample_time] 1 2 3 numeric_threshold_summary
  show ?thesis by blast
qed

subsection \<open>The indicators and the clock\<close>

text \<open>
  C8: the Test Duration indicator of the report is the summary's \<^verbatim>\<open>test_duration\<close>
  divided by 1,000,000,000 and shown with one decimal and the unit \<^verbatim>\<open>s\<close>: nanoseconds
  become seconds. The summary's \<^verbatim>\<open>test_duration\<close> is the document's
  \<^verbatim>\<open>state.testRunDuration\<close> whenever that key is present. The indicators are numbers
  within the interpreter's limits; otherwise an indicator line raises.
\<close>

theorem test_duration_in_seconds:
  assumes "numeric_indicators perf" and "as_number (test_duration perf) = Some ns"
  shows "(\<exists>r. generate_report (Some perf) sys dir t1 t2 = Inr r \<and>
            content r ! 9 = [Lit ''- **Test Duration:** '',
              Fmt (PFloat (ns / 1000000000)) ''.1f'', Lit ''s\<newline>'']) \<and>
         (\<forall>d. analyze_performance d = Inr (Some perf) \<longrightarrow>
            lookup_path d [''state'', ''testRunDuration''] = Some (test_duration perf) \<or>
            lookup_path d [''state'', ''testRunDuration''] = None \<and> test_duration perf = PInt 0)"
proof (intro conjI allI impI)
  from generate_report_numeric [OF assms(1)] obtain r sl pl where
    r: "generate_report (Some perf) sys dir t1 t2 = Inr r"
    and sl: "executive_summary (Some perf) = Inr sl"
    and c: "content r =
          [[Lit ''# Party Puzzle Palooza Load Test Performance Report\<newline>\<newline>''],
           generated_line t2,
           [Lit ''## Executive Summary\<newline>\<newline>'']] @
          sl @ system_resource_section sys @ [recommendations_header] @ pl @
          system_recommendations sys @ next_steps"
    by blast
  from sl assms(2) have "content r ! 9 = [Lit ''- **Test Duration:** '',
              Fmt (PFloat (ns / 1000000000)) ''.1f'', Lit ''s\<newline>'']"
    unfolding executive_summary_numeric [OF assms(1)] c by auto
  with r show "\<exists>r. generate_report (Some perf) sys dir t1 t2 = Inr r \<and>
            content r ! 9 = [Lit ''- **Test Duration:** '',
              Fmt (PFloat (ns / 1000000000)) ''.1f'', Lit ''s\<newline>'']"
    by blast
next
  fix d
  assume a: "analyze_performance d = Inr (Some perf)"
  then obtain v where g: "get_stat d ''state'' ''testRunDuration'' = Inr v"
    and v: "test_duration perf = v"
    by (auto simp: analyze_performance_def rbind_Inr_iff split: if_splits)
  from g have "lookup_path d [''state'', ''testRunDuration''] = Some v \<or>
       lookup_path d [''state'', ''testRunDuration''] = None \<and> v = PInt 0"
    by (cases d) (auto simp: get_stat_def rbind_Inr_iff split: option.splits elim!: py_get.elims)
  with v show "lookup_path d [''state'', ''testRunDuration''] = Some (test_duration perf) \<or>
            lookup_path d [''state'', ''testRunDuration''] = None \<and> test_duration perf = PInt 0"
    by simp
qed

lemma full_document_summary:
  "analyze_performance full_document = Inr (Some (summary_of full_document))"
proof -
  have "well_formed_document full_document"
    by (simp add: well_formed_document_def full_document_def dict_or_missing_def
        metric_names_def)
  moreover have "truthy full_document" by (simp add: full_document_def)
  ultimately show ?thesis by (rule analyze_performance_well_formed)
qed

text \<open>A run of 60,000,000,000 nanoseconds is reported as 60 seconds.\<close>

theorem test_duration_in_seconds_witness:
  "numeric_indicators (summary_of full_document) \<and>
   as_number (test_duration (summary_of full_document)) = Some 60000000000 \<and>
   analyze_performance full_document = Inr (Some (summary_of full_document)) \<and>
   lookup_path full_document [''state'', ''testRunDuration''] = Some (PInt 60000000000) \<and>
   (\<exists>r. generate_report (Some (summary_of full_document)) None ''out'' sample_time sample_time
          = Inr r \<and>
        content r ! 9 = [Lit ''- **Test Duration:** '', Fmt (PFloat 60) ''.1f'',
          Lit ''s\<newline>''])"
proof -
  have n: "numeric_indicators (summary_of full_document)"
    by (simp add: numeric_indicators_def summary_of_def field_or_zero_def full_document_def
        decimal_number_small float_limit_def)
  have d: "as_number (test_duration (summary_of full_document)) = Some 60000000000"
    by (simp add: summary_of_def field_or_zero_def full_document_def)
  have l: "lookup_path full_document [''state'', ''testRunDuration''] = Some (PInt 60000000000)"
    by (simp add: full_document_def)
  from test_duration_in_seconds [OF n d, of None "''out''" sample_time sample_time]
    n d l full_document_summary
  show ?thesis by simp
qed

text \<open>
  C7: the report writer is a function of the two summaries and the clock, and the clock
  reaches the Markdown only through the generation-time line: two runs on the same
  summaries, whatever their clock readings and output directories, write the same
  strings aside from that line (and raise the same exception if they raise), and the
  second string written is the generation-time line.
\<close>

theorem report_independent_of_clock:
  "aside_from_generated (generate_report perf sys dir t1 t2) =
     aside_from_generated (generate_report perf sys dir' t1' t2') \<and>
   map_sum id (\<lambda>r. content r ! 1) (generate_report perf sys dir t1 t2) =
     map_sum id (\<lambda>r. generated_line t2) (generate_report perf sys dir t1 t2)"
proof (cases "executive_summary perf")
  case (Inl e)
  then show ?thesis by (simp add: generate_report_def aside_from_generated_def Let_def)
next
  case sl: (Inr sl)
  show ?thesis
  proof (cases "performance_recommendations perf")
    case (Inl e)
    with sl show ?thesis by (simp add: generate_report_def aside_from_generated_def Let_def)
  next
    case (Inr pl)
    with sl show ?thesis by (simp add: generate_report_def aside_from_generated_def Let_def)
  qed
qed

section \<open>Absent and empty resource series\<close>

lemma system_section_lines: "list_all system_line (system_resource_section (Some s))"
  by (simp add: system_resource_section_def system_line_def)

lemma executive_summary_not_system:
  assumes "executive_summary perf = Inr sl"
  shows "list_all (\<lambda>l. \<not> system_line l) sl"
proof (cases perf)
  case None
  with assms show ?thesis by (simp add: executive_summary_def)
next
  case (Some p)
  with assms show ?thesis
    by (clarsimp simp: executive_summary_def rbind_Inr_iff Let_def system_line_def
        http_within_line_def http_exceeds_line_def error_within_line_def error_exceeds_line_def
        ws_within_line_def ws_exceeds_line_def check_mark_def cross_mark_def)
qed

lemma blocks_not_system:
  "list_all (\<lambda>l. \<not> system_line l)
     (http_block @ error_block @ ws_block @ cpu_block @ db_block @ redis_block)"
  by (simp add: http_block_def error_block_def ws_block_def
      cpu_block_def db_block_def redis_block_def system_line_def)

lemma fixed_lines_not_system:
  "list_all (\<lambda>l. \<not> system_line l)
     ([[Lit ''# Party Puzzle Palooza Load Test Performance Report\<newline>\<newline>''],
       generated_line t2,
       [Lit ''## Executive Summary\<newline>\<newline>''], recommendations_header] @ next_steps)"
  by (simp add: generated_line_def recommendations_header_def next_steps_def system_line_def)

lemma performance_recommendations_subset:
  assumes "performance_recommendations perf = Inr pl"
  shows "set pl \<subseteq> set http_block \<union> set error_block \<union> set ws_block"
  using assms
  by (auto simp: performance_recommendations_def rbind_Inr_iff split: option.splits if_splits)

lemma report_without_resources_has_no_system_line:
  assumes "generate_report perf None dir t1 t2 = Inr r" and "l \<in> set (content r)"
  shows "\<not> system_line l"
proof -
  from generate_report_Inr [OF assms(1)] obtain sl pl where
    sl: "executive_summary perf = Inr sl"
    and pl: "performance_recommendations perf = Inr pl"
    and c: "content r =
          [[Lit ''# Party Puzzle Palooza Load Test Performance Report\<newline>\<newline>''],
           generated_line t2,
           [Lit ''## Executive Summary\<newline>\<newline>'']] @
          sl @ system_resource_section None @ [recommendations_header] @ pl @
          system_recommendations None @ next_steps"
    by blast
  from c assms(2) have "l \<in> set sl \<or> l \<in> set pl \<or>
      l \<in> set ([[Lit ''# Party Puzzle Palooza Load Test Performance Report\<newline>\<newline>''],
           generated_line t2,
           [Lit ''## Executive Summary\<newline>\<newline>''], recommendations_header] @ next_steps)"
    by (auto simp: system_resource_section_def system_recommendations_def)
  then show ?thesis
  proof (elim disjE)
    assume "l \<in> set sl"
    with executive_summary_not_system [OF sl] show ?thesis
      by (simp add: list_all_iff)
  next
    assume "l \<in> set pl"
    with performance_recommendations_subset [OF pl]
    have "l \<in> set (http_block @ error_block @ ws_block @ cpu_block @ db_block @ redis_block)"
      by auto
    with blocks_not_system show ?thesis
      unfolding list_all_iff by blast
  next
    assume "l \<in> set ([[Lit ''# Party Puzzle Palooza Load Test Performance Report\<newline>\<newline>''],
           generated_line t2,
           [Lit ''## Executive Summary\<newline>\<newline>''], recommendations_header] @ next_steps)"
    with fixed_lines_not_system [of t2] show ?thesis
      unfolding list_all_iff by blast
  qed
qed

lemma no_panels_without_frame:
  assumes "generate_graphs k6_data None dir t = Inr g"
  shows "axes_0_1 (fig g) = [] \<and> axes_0_2 (fig g) = [] \<and>
       axes_1_0 (fig g) = [] \<and> axes_1_1 (fig g) = []"
  using assms
  by (auto simp: generate_graphs_def rbind_Inr_iff cpu_panel_def db_panel_def
      redis_panel_def memory_panel_def)

text \<open>
  A frame with zero rows is not \<^verbatim>\<open>None\<close>: the analyzer returns no resource summary for
  it, yet the chart renderer draws the CPU panel (and the other three resource panels)
  with its title, label and reference line around an empty curve.
\<close>

theorem empty_series_panels_counterexample:
  "analyze_system_metrics (Some []) = None \<and>
   map_sum id (\<lambda>g. axes_0_1 (fig g)) (generate_graphs PNone (Some []) ''out'' sample_time) =
     Inr [Plot [] [] None, Set_title ''CPU Usage Over Time'', Set_ylabel ''CPU Usage (%)'',
          Tick_params_x_rotation 45, Axhline 80 ''Warning (80%)'', Legend]"
  by (simp add: analyze_system_metrics_def generate_graphs_def http_panel_def
      business_panel_def cpu_panel_def)

text \<open>
  C6: for an absent resource series or one with zero rows the analyzer returns an absent
  result, and the report then has no line of the System Resource Analysis section,
  whatever the statistics such a line would show; for an absent series the four
  resource axes of the chart are left without any drawing.
\<close>

theorem empty_series_omits_section:
  assumes "system_df = None \<or> system_df = Some []"
  shows "analyze_system_metrics system_df = None \<and>
    (\<forall>r. generate_report perf (analyze_system_metrics system_df) dir t1 t2 = Inr r \<longrightarrow>
       (\<forall>s. set (system_resource_section (Some s)) \<inter> set (content r) = {})) \<and>
    (\<forall>g. generate_graphs k6_data None dir t = Inr g \<longrightarrow>
       axes_0_1 (fig g) = [] \<and> axes_0_2 (fig g) = [] \<and>
       axes_1_0 (fig g) = [] \<and> axes_1_1 (fig g) = [])"
proof -
  from assms have a: "analyze_system_metrics system_df = None"
    by (auto simp: analyze_system_metrics_def)
  have "set (system_resource_section (Some s)) \<inter> set (content r) = {}"
    if "generate_report perf None dir t1 t2 = Inr r" for r s
    using report_without_resources_has_no_system_line [OF that] system_section_lines [of s]
    unfolding list_all_iff by blast
  with a no_panels_without_frame show ?thesis
    by simp
qed

text \<open>Both kinds of series, a report for the zero-row one and the chart for the absent one.\<close>

theorem empty_series_omits_section_witness:
  "analyze_system_metrics None = None \<and> analyze_system_metrics (Some []) = None \<and>
   (\<exists>r. generate_report (Some threshold_summary) (analyze_system_metrics (Some [])) ''out''
          sample_time sample_time = Inr r \<and>
        [Lit ''\<newline>## System Resource Analysis\<newline>\<newline>''] \<notin> set (content r)) \<and>
   (\<exists>g. generate_graphs full_document None ''out'' sample_time = Inr g \<and>
        axes_0_1 (fig g) = [] \<and> axes_0_2 (fig g) = [] \<and>
        axes_1_0 (fig g) = [] \<and> axes_1_1 (fig g) = [])"
proof -
  have e: "Some [] = None \<or> Some [] = Some ([] :: dataframe)"
    and n: "None = None \<or> None = Some ([] :: dataframe)"
    by simp_all
  note t = empty_series_omits_section [OF e, of "Some threshold_summary" "''out''"
      sample_time sample_time full_document sample_time]
  note u = empty_series_omits_section [OF n, of "Some threshold_summary" "''out''"
      sample_time sample_time full_document sample_time]
  from t have a: "analyze_system_metrics (Some []) = None" by blast
  from u have b: "analyze_system_metrics None = None" by blast
  from generate_report_numeric [OF numeric_threshold_summary] obtain r where
    r: "generate_report (Some threshold_summary) None ''out'' sample_time sample_time = Inr r"
    by blast
  from t r a have d: "set (system_resource_section (Some s)) \<inter> set (content r) = {}" for s
    by simp
  have m: "[Lit ''\<newline>## System Resource Analysis\<newline>\<newline>'']
      \<in> set (system_resource_section (Some s))" for s
    by (simp add: system_resource_section_def)
  from d m have 1: "[Lit ''\<newline>## System Resource Analysis\<newline>\<newline>''] \<notin> set (content r)"
    by blast
  obtain g where g: "generate_graphs full_document None ''out'' sample_time = Inr g"
    by (simp add: generate_graphs_def http_panel_def business_panel_def full_document_def
        get_stat_def bar_colour_def py_gt_def Let_def)
  with t have "axes_0_1 (fig g) = [] \<and> axes_0_2 (fig g) = [] \<and>
        axes_1_0 (fig g) = [] \<and> axes_1_1 (fig g) = []"
    by blast
  with a b r 1 g show ?thesis by auto
qed

section \<open>Loading failures and the whole run\<close>






section \<open>The resource summary\<close>

lemma quantile_index_in_range:
  assumes "xs \<noteq> []" and "0 \<le> q" and "q \<le> 1"
  shows "nat \<lceil>q * real (length xs - 1)\<rceil> < length xs"
proof -
  from assms(1) have n: "0 < length xs" by simp
  have "q * real (length xs - 1) \<le> 1 * real (length xs - 1)"
    using assms(3) by (intro mult_right_mono) simp_all
  then have "\<lceil>q * real (length xs - 1)\<rceil> \<le> int (length xs - 1)"
    by (simp add: ceiling_le_iff)
  with n show ?thesis by linarith
qed

text \<open>
  C5: for a resource series of at least one row the analyzer returns a summary in which
  each of the four resource entries holds the statistics of its own column: the mean is
  the sum of the column divided by the number of rows, the maximum is the greatest value
  of the column, and the 95th percentile is the linear interpolation between the two
  neighbours, in the sorted column, of the fractional position \<open>0.95 * (N - 1)\<close>, both
  of which exist.
\<close>

theorem resource_statistics_per_column:
  assumes "df \<noteq> []"
  shows "\<exists>s. analyze_system_metrics (Some df) = Some s \<and>
    cpu s = column_stats (map col_cpu df) \<and>
    memory s = column_stats (map col_memory df) \<and>
    database_connections s = column_stats (map col_db_connections df) \<and>
    redis_connections s = column_stats (map col_redis_connections df) \<and>
    (\<forall>xs. length xs = length df \<longrightarrow>
       mean (column_stats xs) = sum_list xs / real (length df) \<and>
       maximum (column_stats xs) = Max (set xs) \<and>
       nat \<lceil>95 / 100 * real (length df - 1)\<rceil> < length (sort xs) \<and>
       pct95 (column_stats xs) =
         (let h = 95 / 100 * real (length df - 1); lo = nat \<lfloor>h\<rfloor>; hi = nat \<lceil>h\<rceil>
          in sort xs ! lo + (h - real lo) * (sort xs ! hi - sort xs ! lo)))"
proof -
  have "nat \<lceil>95 / 100 * real (length df - 1)\<rceil> < length (sort xs)"
    if "length xs = length df" for xs :: "real list"
  proof -
    from that assms have "xs \<noteq> []" by auto
    then have "nat \<lceil>95 / 100 * real (length xs - 1)\<rceil> < length xs"
      by (rule quantile_index_in_range) simp_all
    then show ?thesis by (simp only: length_sort that)
  qed
  with assms show ?thesis
    by (simp add: analyze_system_metrics_def column_stats_def series_mean_def series_max_def
        series_quantile_def Let_def)
qed

text \<open>Two samples: the 95th percentile lies at 95% of the way from the lower to the higher.\<close>

theorem resource_statistics_per_column_witness:
  "sample_frame \<noteq> [] \<and>
   analyze_system_metrics (Some sample_frame) = Some
     \<lparr>cpu = \<lparr>mean = 20, maximum = 30, pct95 = 29\<rparr>,
      memory = \<lparr>mean = 1536, maximum = 2048, pct95 = 19968 / 10\<rparr>,
      database_connections = \<lparr>mean = 6, maximum = 8, pct95 = 78 / 10\<rparr>,
      redis_connections = \<lparr>mean = 7, maximum = 12, pct95 = 115 / 10\<rparr>\<rparr>"
proof -
  have ne: "sample_frame \<noteq> []" by (simp add: sample_frame_def)
  from resource_statistics_per_column [OF ne] obtain s where
    s: "analyze_system_metrics (Some sample_frame) = Some s"
    and c: "cpu s = column_stats (map col_cpu sample_frame)"
      "memory s = column_stats (map col_memory sample_frame)"
      "database_connections s = column_stats (map col_db_connections sample_frame)"
      "redis_connections s = column_stats (map col_redis_connections sample_frame)"
    by blast
  have h: "(95::real) / 100 * real (length sample_frame - 1) = 19 / 20"
    by (simp add: sample_frame_def)
  have v: "column_stats [10, 30] = \<lparr>mean = 20, maximum = 30, pct95 = 29\<rparr>"
    "column_stats [2048, 1024] = \<lparr>mean = 1536, maximum = 2048, pct95 = 19968 / 10\<rparr>"
    "column_stats [4, 8] = \<lparr>mean = 6, maximum = 8, pct95 = 78 / 10\<rparr>"
    "column_stats [12, 2] = \<lparr>mean = 7, maximum = 12, pct95 = 115 / 10\<rparr>"
    by (simp_all add: column_stats_def series_mean_def series_max_def series_quantile_def
        Let_def)
  have "s = \<lparr>cpu = cpu s, memory = memory s, database_connections = database_connections s,
      redis_connections = redis_connections s\<rparr>"
    by simp
  with c v have "s = \<lparr>cpu = \<lparr>mean = 20, maximum = 30, pct95 = 29\<rparr>,
      memory = \<lparr>mean = 1536, maximum = 2048, pct95 = 19968 / 10\<rparr>,
      database_connections = \<lparr>mean = 6, maximum = 8, pct95 = 78 / 10\<rparr>,
      redis_connections = \<lparr>mean = 7, maximum = 12, pct95 = 115 / 10\<rparr>\<rparr>"
    by (simp add: sample_frame_def)
  with s ne show ?thesis by simp
qed

end
